theory Spec2Isabelle
  imports Complex_Main
begin

section \<open>Numbers and vectors\<close>

text \<open>
  JavaScript numbers are doubles. They are modelled as real numbers, and the values NaN
  and Infinity are not part of the model. In the collision resolver, the ground check and
  the player the arithmetic is read as exact arithmetic. In the fixed-timestep loop it is
  not: there the timestep is subtracted from the accumulator over and over, the roundings
  add up and decide how many steps are made, so every operation on the accumulator is
  followed by the rounding to binary64 that is written out below.
  The operations of the vector class of the three.js library that the program calls are
  written out as well; \<open>normalize\<close> divides by the length, or by 1 when the length is 0.
\<close>

record vec3 =
  vec_x :: real
  vec_y :: real
  vec_z :: real

definition Vector3 :: "real \<Rightarrow> real \<Rightarrow> real \<Rightarrow> vec3" where
  "Vector3 a b c = \<lparr>vec_x = a, vec_y = b, vec_z = c\<rparr>"

definition js_or :: "real \<Rightarrow> real \<Rightarrow> real" where
  \<comment> \<open>\<open>x || d\<close> on numbers: 0 is falsy.\<close>
  "js_or v d = (if v = 0 then d else v)"

definition js_or_undef :: "real option \<Rightarrow> real \<Rightarrow> real" where
  \<comment> \<open>\<open>x || d\<close> where \<open>x\<close> may be undefined.\<close>
  "js_or_undef v d = (case v of None \<Rightarrow> d | Some r \<Rightarrow> js_or r d)"

definition add :: "vec3 \<Rightarrow> vec3 \<Rightarrow> vec3" where
  "add u v = Vector3 (vec_x u + vec_x v) (vec_y u + vec_y v) (vec_z u + vec_z v)"

definition sub :: "vec3 \<Rightarrow> vec3 \<Rightarrow> vec3" where
  "sub u v = Vector3 (vec_x u - vec_x v) (vec_y u - vec_y v) (vec_z u - vec_z v)"

definition multiplyScalar :: "vec3 \<Rightarrow> real \<Rightarrow> vec3" where
  "multiplyScalar v s = Vector3 (vec_x v * s) (vec_y v * s) (vec_z v * s)"

definition addScaledVector :: "vec3 \<Rightarrow> vec3 \<Rightarrow> real \<Rightarrow> vec3" where
  "addScaledVector u v s = Vector3 (vec_x u + vec_x v * s) (vec_y u + vec_y v * s) (vec_z u + vec_z v * s)"

definition dot :: "vec3 \<Rightarrow> vec3 \<Rightarrow> real" where
  "dot u v = vec_x u * vec_x v + vec_y u * vec_y v + vec_z u * vec_z v"

definition lengthSq :: "vec3 \<Rightarrow> real" where
  "lengthSq v = vec_x v * vec_x v + vec_y v * vec_y v + vec_z v * vec_z v"

definition length3 :: "vec3 \<Rightarrow> real" where
  "length3 v = sqrt (lengthSq v)"

definition divideScalar :: "vec3 \<Rightarrow> real \<Rightarrow> vec3" where
  "divideScalar v s = multiplyScalar v (1 / s)"

definition normalize :: "vec3 \<Rightarrow> vec3" where
  "normalize v = divideScalar v (js_or (length3 v) 1)"

definition distanceTo :: "vec3 \<Rightarrow> vec3 \<Rightarrow> real" where
  "distanceTo u v = sqrt (lengthSq (sub u v))"

subsection \<open>Rounding to binary64\<close>

text \<open>
  \<open>binary64 x\<close> is the double nearest to \<open>x\<close>, ties going to the even significand: the
  exponent of \<open>x\<close> is searched upwards from that of the subnormal numbers, - 1022, to the
  largest one, 1023, and \<open>x\<close> is rounded to a multiple of the unit in the last place, which
  is 52 binary places below. A magnitude of \<open>2 ^ 1024\<close> or more, which a double cannot
  hold, is not part of the model.
\<close>

definition pow2 :: "int \<Rightarrow> real" where
  "pow2 e = (if 0 \<le> e then 2 ^ nat e else 1 / 2 ^ nat (- e))"

definition round_half_even :: "real \<Rightarrow> int" where
  "round_half_even y =
     (let f = \<lfloor>y\<rfloor>
      in if y - of_int f < 1 / 2 then f
         else if 1 / 2 < y - of_int f then f + 1
         else if even f then f else f + 1)"

fun exponent_from :: "nat \<Rightarrow> int \<Rightarrow> real \<Rightarrow> int" where
  "exponent_from 0 e x = e"
| "exponent_from (Suc n) e x = (if x < pow2 (e + 1) then e else exponent_from n (e + 1) x)"

definition exponent :: "real \<Rightarrow> int" where
  "exponent x = exponent_from 2045 (- 1022) \<bar>x\<bar>"

definition binary64 :: "real \<Rightarrow> real" where
  "binary64 x =
     (let q = pow2 (exponent x - 52)
      in of_int (round_half_even (x / q)) * q)"

section \<open>Bodies and the physics world\<close>

text \<open>
  Modelled from the spec: the class PhysicsBody (PhysicsBody.js) is not among the
  sources. A body carries the fields of the spec's data model that PhysicsWorld reads
  and writes; \<open>radius\<close> is optional (the world reads it as \<open>body.radius || d\<close>), and a
  collider, when present, is represented by the position it holds, which
  \<open>updatePosition\<close> overwrites. Position and velocity are always there, so a guard such
  as \<open>bodyA.velocity && invMassA > 0\<close> is the test on the inverse mass.
\<close>

record body =
  position :: vec3
  velocity :: vec3
  invMass :: real
  restitution :: real
  radius :: "real option"
  isStatic :: bool
  usesGravity :: bool
  onGround :: bool
  collider :: "vec3 option"

text \<open>
  What \<open>addBody\<close> may be handed: a PhysicsBody instance or any other value. In the world,
  \<open>console_errors\<close> collects the messages passed to \<open>console.error\<close>; the ground threshold
  is assigned once, in the constructor.
\<close>

datatype js_arg = PhysicsBody body | NotABody string

record world =
  bodies :: "body list"
  staticBodies :: "body list"
  accumulator :: real
  fixedTimeStep :: real
  console_errors :: "string list"

definition groundThreshold :: real where
  "groundThreshold = 0.15"

text \<open>
  The constructor; \<open>physicsFPS\<close> comes from the engine configuration, and the timestep is
  the rounded quotient. A rate of 0, for which the source's timestep is Infinity, is
  outside the model.
\<close>

definition PhysicsWorld_new :: "real \<Rightarrow> world" where
  "PhysicsWorld_new physicsFPS =
     \<lparr>bodies = [], staticBodies = [], accumulator = 0,
      fixedTimeStep = binary64 (1 / physicsFPS), console_errors = []\<rparr>"

definition addBody :: "js_arg \<Rightarrow> world \<Rightarrow> body option \<times> world" where
  "addBody arg w =
     (case arg of
        NotABody _ \<Rightarrow>
          (None, w\<lparr>console_errors := console_errors w @
             [''Trying to add a non-PhysicsBody object to the physics world'']\<rparr>)
      | PhysicsBody b \<Rightarrow>
          (if isStatic b
           then (Some b, w\<lparr>staticBodies := staticBodies w @ [b]\<rparr>)
           else (Some b, w\<lparr>bodies := bodies w @ [b]\<rparr>)))"

definition checkWorldBounds :: "body \<Rightarrow> body" where
  "checkWorldBounds b =
     (if vec_y (position b) < groundThreshold then
        (let b1 = (if vec_y (position b) < 0
                   then b\<lparr>position := (position b)\<lparr>vec_y := 0.05\<rparr>\<rparr>
                   else b)
         in if vec_y (velocity b1) \<le> 0.1 then
              (let b2 = b1\<lparr>onGround := True\<rparr>
               in if vec_y (velocity b2) < 0
                  then b2\<lparr>velocity := (velocity b2)\<lparr>vec_y := 0\<rparr>\<rparr>
                  else b2)
            else b1)
      else b\<lparr>onGround := False\<rparr>)"

text \<open>
  The fixed-timestep loop. \<open>fixedUpdate\<close> reads and writes the two body collections
  only; the integration methods it calls on each body belong to PhysicsBody.js, so the
  step on the collections is a parameter here. The sum and the difference that the
  accumulator is assigned are rounded. The loop may run forever (a timestep that is not
  positive), hence the option result: \<open>None\<close> is a call that does not return. The second
  component lists the arguments of the \<open>fixedUpdate\<close> calls made, in order.
\<close>

type_synonym fixed_step = "real \<Rightarrow> body list \<times> body list \<Rightarrow> body list \<times> body list"

definition fixedUpdate :: "fixed_step \<Rightarrow> real \<Rightarrow> world \<Rightarrow> world" where
  "fixedUpdate step timeStep w =
     (let r = step timeStep (bodies w, staticBodies w)
      in w\<lparr>bodies := fst r, staticBodies := snd r\<rparr>)"

partial_function (option) update_loop ::
  "fixed_step \<Rightarrow> world \<Rightarrow> real list \<Rightarrow> (world \<times> real list) option" where
  "update_loop step w calls =
     (if accumulator w \<ge> fixedTimeStep w then
        (let w1 = fixedUpdate step (fixedTimeStep w) w
         in update_loop step (w1\<lparr>accumulator := binary64 (accumulator w1 - fixedTimeStep w1)\<rparr>)
              (calls @ [fixedTimeStep w]))
      else Some (w, calls))"

definition update :: "fixed_step \<Rightarrow> real \<Rightarrow> world \<Rightarrow> (world \<times> real list) option" where
  "update step deltaTime w =
     update_loop step (w\<lparr>accumulator := binary64 (accumulator w + deltaTime)\<rparr>) []"

text \<open>A sequence of frames: \<open>update\<close> called with each elapsed time in turn.\<close>

fun updates :: "fixed_step \<Rightarrow> real list \<Rightarrow> world \<Rightarrow> world option" where
  "updates step [] w = Some w"
| "updates step (deltaTime # dts) w =
     (case update step deltaTime w of
        None \<Rightarrow> None
      | Some r \<Rightarrow> updates step dts (fst r))"

section \<open>Collision resolution\<close>

text \<open>
  Contact information as \<open>body.checkCollision(other)\<close> returns it. That method belongs
  to PhysicsBody.js; its results for the pair are parameters of the resolver:
  \<open>infoA\<close> is what \<open>bodyA.checkCollision(bodyB)\<close> yields and \<open>infoB\<close> what
  \<open>bodyB.checkCollision(bodyA)\<close> yields, \<open>None\<close> standing for a missing method or a
  falsy result. \<open>aIsPlayer\<close> says whether \<open>bodyA\<close> is the player's physics body. The
  two bodies are different objects, as they are for every pair that \<open>detectCollisions\<close>
  forms from collections without repetition; the resolver returns both.
\<close>

record contact =
  normal :: vec3
  depth :: real

definition getCollisionInfo :: "contact option \<Rightarrow> contact option \<Rightarrow> contact option" where
  "getCollisionInfo infoA infoB =
     (case infoA of
        Some c \<Rightarrow> Some c
      | None \<Rightarrow>
          (case infoB of
             Some c \<Rightarrow> Some (c\<lparr>normal := multiplyScalar (normal c) (- 1)\<rparr>)
           | None \<Rightarrow> None))"

definition updatePosition :: "vec3 \<Rightarrow> body \<Rightarrow> body" where
  \<comment> \<open>\<open>if (body.collider) body.collider.updatePosition(p)\<close>\<close>
  "updatePosition p b = (case collider b of None \<Rightarrow> b | Some _ \<Rightarrow> b\<lparr>collider := Some p\<rparr>)"

definition resolveWithInfo :: "bool \<Rightarrow> contact \<Rightarrow> body \<Rightarrow> body \<Rightarrow> body \<times> body" where
  "resolveWithInfo aIsPlayer c bodyA bodyB =
     (let relativeVelocity = sub (velocity bodyA) (velocity bodyB);
          velAlongNormal = dot relativeVelocity (normal c)
      in if velAlongNormal > 0 then (bodyA, bodyB)
         else
           (let rest = min (js_or (restitution bodyA) 0) (js_or (restitution bodyB) 0);
                j0 = - (1 + rest) * velAlongNormal;
                invMassA = js_or (invMass bodyA) 0;
                invMassB = js_or (invMass bodyB) 0;
                invMassSum = invMassA + invMassB
            in if invMassSum = 0 then (bodyA, bodyB)
               else
                 (let j = j0 / invMassSum;
                      impulse = multiplyScalar (normal c) j;
                      a1 = (if invMassA > 0
                            then bodyA\<lparr>velocity :=
                                   add (velocity bodyA) (multiplyScalar impulse invMassA)\<rparr>
                            else bodyA);
                      b1 = (if invMassB > 0
                            then bodyB\<lparr>velocity :=
                                   sub (velocity bodyB) (multiplyScalar impulse invMassB)\<rparr>
                            else bodyB);
                      r = (if depth c > 0 then
                             (let correction = multiplyScalar (normal c) (depth c * 1.0);
                                  a2 = (if invMassA > 0
                                        then a1\<lparr>position := add (position a1)
                                               (multiplyScalar correction (invMassA / invMassSum))\<rparr>
                                        else a1);
                                  b2 = (if invMassB > 0
                                        then b1\<lparr>position := sub (position b1)
                                               (multiplyScalar correction (invMassB / invMassSum))\<rparr>
                                        else b1)
                              in (updatePosition (position a2) a2, updatePosition (position b2) b2))
                           else (a1, b1));
                      a3 = (if vec_y (normal c) > 0.7 \<and> aIsPlayer
                            then (fst r)\<lparr>onGround := True\<rparr>
                            else fst r)
                  in (a3, snd r))))"

definition resolveSphere :: "bool \<Rightarrow> body \<Rightarrow> body \<Rightarrow> body \<times> body" where
  "resolveSphere aIsPlayer bodyA bodyB =
     (let nrm = normalize (sub (position bodyA) (position bodyB));
          relativeVelocity = sub (velocity bodyA) (velocity bodyB);
          velAlongNormal = dot relativeVelocity nrm
      in if velAlongNormal > 0 then (bodyA, bodyB)
         else
           (let e = min (js_or (restitution bodyA) 0.3) (js_or (restitution bodyB) 0.3);
                j = - (1 + e) * velAlongNormal;
                invMassSum = js_or (invMass bodyA) 0 + js_or (invMass bodyB) 0
            in if invMassSum = 0 then (bodyA, bodyB)
               else
                 (let impulse = j / invMassSum;
                      impulseVec = multiplyScalar nrm impulse;
                      a1 = (if invMass bodyA > 0
                            then bodyA\<lparr>velocity :=
                                   add (velocity bodyA) (multiplyScalar impulseVec (invMass bodyA))\<rparr>
                            else bodyA);
                      b1 = (if invMass bodyB > 0
                            then bodyB\<lparr>velocity :=
                                   sub (velocity bodyB) (multiplyScalar impulseVec (invMass bodyB))\<rparr>
                            else bodyB);
                      minDist = js_or_undef (radius bodyA) 0.5 + js_or_undef (radius bodyB) 0.5;
                      dist = distanceTo (position bodyA) (position bodyB);
                      correction = max (minDist - dist) 0 * 0.8;
                      r = (if correction > 0 then
                             (let correctionVec = multiplyScalar nrm correction;
                                  corrA = multiplyScalar correctionVec (invMass bodyA / invMassSum);
                                  corrB = multiplyScalar correctionVec (invMass bodyB / invMassSum);
                                  a2 = (if invMass bodyA > 0
                                        then (let a' = a1\<lparr>position := add (position a1) corrA\<rparr>
                                              in updatePosition (position a') a')
                                        else a1);
                                  b2 = (if invMass bodyB > 0
                                        then (let b' = b1\<lparr>position := sub (position b1) corrB\<rparr>
                                              in updatePosition (position b') b')
                                        else b1)
                              in (a2, b2))
                           else (a1, b1));
                      a3 = (if vec_y nrm > 0.7 \<and> aIsPlayer
                            then (fst r)\<lparr>onGround := True\<rparr>
                            else fst r)
                  in (a3, snd r))))"

definition resolveCollision ::
  "bool \<Rightarrow> contact option \<Rightarrow> contact option \<Rightarrow> body \<Rightarrow> body \<Rightarrow> body \<times> body" where
  "resolveCollision aIsPlayer infoA infoB bodyA bodyB =
     (case getCollisionInfo infoA infoB of
        Some c \<Rightarrow> resolveWithInfo aIsPlayer c bodyA bodyB
      | None \<Rightarrow> resolveSphere aIsPlayer bodyA bodyB)"

section \<open>The player and its movement controller\<close>

text \<open>
  The tuning values below are assigned once, in the constructors of Movement and Player,
  and never reassigned.
\<close>

definition walkSpeed :: real where "walkSpeed = 6.0"
definition runSpeed :: real where "runSpeed = 10.0"
definition maxSpeed :: real where "maxSpeed = 12.0"
definition groundAcceleration :: real where "groundAcceleration = 150.0"
definition airAcceleration :: real where "airAcceleration = 20.0"
definition stopAcceleration :: real where "stopAcceleration = 200.0"
definition momentumRetention :: real where "momentumRetention = 0.5"
definition dirChangeBoostMultiplier :: real where "dirChangeBoostMultiplier = 3.0"
definition jumpForce :: real where "jumpForce = 7.5"
definition jumpBoostForward :: real where "jumpBoostForward = 0.2"
definition airControl :: real where "airControl = 0.9"
definition directionChangeThreshold :: real where "directionChangeThreshold = 0.85"
definition jumpBufferWindow :: real where "jumpBufferWindow = 200"
definition coyoteTime :: real where "coyoteTime = 150"
definition invulnerabilityDuration :: real where "invulnerabilityDuration = 500"

record movement =
  moveDirection :: vec3
  targetVelocity :: vec3
  lastMoveInput :: vec3
  lastDirection :: vec3
  lastSpeed :: real
  directionChangeTime :: real
  hasChangedDirection :: bool

text \<open>
  The player's own \<open>position\<close>, \<open>velocity\<close> and \<open>onGround\<close> are prefixed, since the
  body has fields of the same names. Of the view rotation only the two angles the code
  uses are kept.
\<close>

record player =
  player_position :: vec3
  player_velocity :: vec3
  viewRotation_x :: real
  viewRotation_y :: real
  mouseSensitivity :: real
  moveInput :: vec3
  isJumping :: bool
  isSprinting :: bool
  jumpCount :: nat
  maxJumps :: nat
  player_onGround :: bool
  lastJumpTime :: real
  jumpRequested :: bool
  jumpBufferTime :: real
  lastGroundedTime :: real
  health :: real
  maxHealth :: real
  isDead :: bool
  lastDamageTime :: real
  physicsBody :: body
  movement :: movement

definition Movement_new :: movement where
  "Movement_new =
     \<lparr>moveDirection = Vector3 0 0 0, targetVelocity = Vector3 0 0 0,
      lastMoveInput = Vector3 0 0 0, lastDirection = Vector3 0 0 0, lastSpeed = 0,
      directionChangeTime = 0, hasChangedDirection = False\<rparr>"

text \<open>
  The constructor. \<open>cfgMaxJumps\<close> and \<open>cfgMouseSpeed\<close> are the entries of the engine
  configuration (\<open>None\<close> when absent), read as \<open>config.maxJumps || 2\<close> and
  \<open>config.mouseSpeed || 0.002\<close>; the jump maximum is a count, hence a natural number.
  \<open>b0\<close> is the body that \<open>new PhysicsBody({...})\<close> returns.
\<close>

definition Player_new :: "nat option \<Rightarrow> real option \<Rightarrow> body \<Rightarrow> player" where
  "Player_new cfgMaxJumps cfgMouseSpeed b0 =
     \<lparr>player_position = Vector3 0 2 0, player_velocity = Vector3 0 0 0,
      viewRotation_x = 0, viewRotation_y = 0,
      mouseSensitivity = js_or_undef cfgMouseSpeed 0.002,
      moveInput = Vector3 0 0 0, isJumping = False, isSprinting = False,
      jumpCount = 0,
      maxJumps = (case cfgMaxJumps of None \<Rightarrow> 2 | Some n \<Rightarrow> if n = 0 then 2 else n),
      player_onGround = False, lastJumpTime = 0, jumpRequested = False,
      jumpBufferTime = 0, lastGroundedTime = 0,
      health = 100, maxHealth = 100, isDead = False, lastDamageTime = 0,
      physicsBody = b0, movement = Movement_new\<rparr>"

subsection \<open>Movement\<close>

definition rotateY :: "real \<Rightarrow> vec3 \<Rightarrow> vec3" where
  \<comment> \<open>\<open>v.applyQuaternion(q)\<close> for the quaternion of \<open>Euler(0, yaw, 0)\<close>: the rotation
      about the Y axis by \<open>yaw\<close>.\<close>
  "rotateY yaw v =
     Vector3 (vec_x v * cos yaw + vec_z v * sin yaw) (vec_y v)
             (- vec_x v * sin yaw + vec_z v * cos yaw)"

definition calculateMoveDirection :: "vec3 \<Rightarrow> player \<Rightarrow> player" where
  "calculateMoveDirection mi p =
     (let forward0 = (rotateY (viewRotation_y p) (Vector3 0 0 (- 1)))\<lparr>vec_y := 0\<rparr>;
          right0 = (rotateY (viewRotation_y p) (Vector3 1 0 0))\<lparr>vec_y := 0\<rparr>;
          forward = (if lengthSq forward0 > 0 then normalize forward0 else forward0);
          right = (if lengthSq right0 > 0 then normalize right0 else right0);
          d = addScaledVector (addScaledVector (Vector3 0 0 0) forward (- vec_z mi))
                right (vec_x mi);
          d' = (if lengthSq d > 0 then normalize d else d)
      in p\<lparr>movement := (movement p)\<lparr>moveDirection := d'\<rparr>\<rparr>)"

definition detectDirectionChange :: "real \<Rightarrow> movement \<Rightarrow> movement" where
  \<comment> \<open>\<open>now\<close> is the reading of \<open>performance.now()\<close> in this method.\<close>
  "detectDirectionChange now m =
     (if lengthSq (lastDirection m) = 0 then m\<lparr>hasChangedDirection := False\<rparr>
      else
        (let dotProduct = dot (lastDirection m) (moveDirection m)
         in if dotProduct < directionChangeThreshold
            then m\<lparr>hasChangedDirection := True, directionChangeTime := now\<rparr>
            else m\<lparr>hasChangedDirection :=
                     hasChangedDirection m \<and> now - directionChangeTime m < 100\<rparr>))"

text \<open>
  \<open>applyAccelerationWithMomentum\<close> in three parts, in the order of the source: the new
  horizontal velocity (lines 134-176), the limit on its length (lines 178-182), and the
  write to the body with the jump boost (lines 184-195).
\<close>

definition blendVelocity :: "real \<Rightarrow> player \<Rightarrow> vec3" where
  "blendVelocity deltaTime p =
     (let currentVelocity =
            Vector3 (vec_x (velocity (physicsBody p))) 0 (vec_z (velocity (physicsBody p)));
          currentSpeed = length3 currentVelocity
      in if hasChangedDirection (movement p) \<and> currentSpeed > 2.0 then
           (let targetContributionFactor = 1.0 - momentumRetention
            in addScaledVector (multiplyScalar currentVelocity momentumRetention)
                 (targetVelocity (movement p)) targetContributionFactor)
         else
           (let accel0 = (if player_onGround p then groundAcceleration else airAcceleration);
                accel1 = (if currentSpeed < 2.0 \<or> hasChangedDirection (movement p)
                          then accel0 * dirChangeBoostMultiplier else accel0);
                accel = (if \<not> player_onGround p then accel1 * airControl else accel1);
                velocityDelta =
                  multiplyScalar (sub (targetVelocity (movement p)) currentVelocity)
                    (min (accel * deltaTime) 1.0)
            in add currentVelocity velocityDelta))"

definition limitSpeed :: "vec3 \<Rightarrow> vec3" where
  "limitSpeed newVelocity =
     (let newSpeed = length3 newVelocity
      in if newSpeed > maxSpeed then multiplyScalar newVelocity (maxSpeed / newSpeed)
         else newVelocity)"

definition applyAccelerationWithMomentum :: "real \<Rightarrow> player \<Rightarrow> player" where
  "applyAccelerationWithMomentum deltaTime p =
     (let newVelocity = limitSpeed (blendVelocity deltaTime p);
          b = physicsBody p;
          p1 = p\<lparr>physicsBody :=
                  b\<lparr>velocity := (velocity b)\<lparr>vec_x := vec_x newVelocity,
                                               vec_z := vec_z newVelocity\<rparr>\<rparr>\<rparr>
      in if isJumping p1 \<and> jumpCount p1 = 1 then
           (let forwardBoost =
                  multiplyScalar (moveDirection (movement p1)) (jumpBoostForward * walkSpeed);
                b1 = physicsBody p1
            in p1\<lparr>physicsBody :=
                    b1\<lparr>velocity := (velocity b1)\<lparr>vec_x := vec_x (velocity b1) + vec_x forwardBoost,
                                                  vec_z := vec_z (velocity b1) + vec_z forwardBoost\<rparr>\<rparr>,
                  isJumping := False\<rparr>)
         else p1)"

definition applyStopForce :: "real \<Rightarrow> player \<Rightarrow> player" where
  "applyStopForce deltaTime p =
     (let b = physicsBody p;
          horizontalVelocity = Vector3 (vec_x (velocity b)) 0 (vec_z (velocity b));
          speed = length3 horizontalVelocity
      in if speed < 0.1
         then p\<lparr>physicsBody := b\<lparr>velocity := (velocity b)\<lparr>vec_x := 0, vec_z := 0\<rparr>\<rparr>\<rparr>
         else
           (let stopAccel = (if player_onGround p then stopAcceleration
                             else stopAcceleration * 0.2);
                deceleration = min speed (stopAccel * deltaTime);
                direction = normalize horizontalVelocity
            in p\<lparr>physicsBody :=
                    b\<lparr>velocity := (velocity b)\<lparr>vec_x := vec_x (velocity b) - vec_x direction * deceleration,
                                                 vec_z := vec_z (velocity b) - vec_z direction * deceleration\<rparr>\<rparr>\<rparr>))"

text \<open>
  \<open>Movement.update\<close>: \<open>normalizedInput\<close> is the local \<open>moveInput\<close> after lines 49-57,
  \<open>prepareMove\<close> is lines 59-67 (direction, direction change, target velocity), after
  which the acceleration is applied (line 70).
\<close>

definition normalizedInput :: "player \<Rightarrow> vec3" where
  "normalizedInput p =
     (if lengthSq (moveInput p) > 0 \<and> lengthSq (moveInput p) > 1
      then normalize (moveInput p) else moveInput p)"

definition prepareMove :: "real \<Rightarrow> player \<Rightarrow> player" where
  \<comment> \<open>\<open>nowM\<close>: the clock as \<open>detectDirectionChange\<close> reads it.\<close>
  "prepareMove nowM p =
     (let q1 = calculateMoveDirection (normalizedInput p) p;
          q2 = q1\<lparr>movement := detectDirectionChange nowM (movement q1)\<rparr>;
          speed = (if isSprinting q2 then runSpeed else walkSpeed)
      in q2\<lparr>movement := (movement q2)\<lparr>targetVelocity :=
                multiplyScalar (moveDirection (movement q2)) speed\<rparr>\<rparr>)"

definition Movement_update :: "real \<Rightarrow> real \<Rightarrow> player \<Rightarrow> player" where
  "Movement_update deltaTime nowM p =
     (let hasInput = lengthSq (moveInput p) > 0;
          mi = normalizedInput p;
          p1 = (if hasInput then applyAccelerationWithMomentum deltaTime (prepareMove nowM p)
                else applyStopForce deltaTime p);
          m1 = (movement p1)\<lparr>lastMoveInput := mi\<rparr>;
          m2 = (if lengthSq (moveDirection m1) > 0
                then m1\<lparr>lastDirection := moveDirection m1\<rparr> else m1);
          m3 = m2\<lparr>lastSpeed := length3 (velocity (physicsBody p1))\<rparr>
      in p1\<lparr>movement := m3\<rparr>)"

definition applyJumpBoost :: "player \<Rightarrow> player" where
  "applyJumpBoost p =
     (if lengthSq (moveDirection (movement p)) > 0 \<and> player_onGround p
      then p\<lparr>isJumping := True\<rparr> else p)"

subsection \<open>Jumping\<close>

definition processJump :: "real \<Rightarrow> player \<Rightarrow> bool \<times> player" where
  \<comment> \<open>\<open>currentTime\<close>: the clock as \<open>processJump\<close> reads it.\<close>
  "processJump currentTime p =
     (let inCoyoteTime = currentTime - lastGroundedTime p < coyoteTime;
          canFirstJump = player_onGround p \<or> inCoyoteTime
      in if currentTime - lastJumpTime p < 100 then (False, p)
         else if canFirstJump \<and> jumpCount p = 0 then
           (let b = physicsBody p;
                p1 = p\<lparr>physicsBody := b\<lparr>velocity := (velocity b)\<lparr>vec_y := jumpForce\<rparr>\<rparr>,
                       jumpCount := 1, lastJumpTime := currentTime\<rparr>
            in (True, applyJumpBoost p1))
         else if \<not> canFirstJump \<and> jumpCount p < maxJumps p then
           (let b = physicsBody p
            in (True, p\<lparr>physicsBody := b\<lparr>velocity := (velocity b)\<lparr>vec_y := jumpForce * 0.9\<rparr>\<rparr>,
                        jumpCount := jumpCount p + 1, lastJumpTime := currentTime\<rparr>))
         else (False, p))"

text \<open>
  \<open>Player.update\<close> up to and including the movement update; the weapon manager and the
  interaction system it then calls are other components. \<open>currentTime\<close>, \<open>jumpTime\<close> and
  \<open>moveTime\<close> are the three readings of the clock made during the call (in \<open>update\<close>, in
  \<open>processJump\<close> and in \<open>detectDirectionChange\<close>). The first component of the result is
  the local \<open>jumpSucceeded\<close>, \<open>False\<close> when \<open>processJump\<close> was not called.
\<close>

definition observeGround :: "real \<Rightarrow> player \<Rightarrow> player" where
  \<comment> \<open>lines 237-253\<close>
  "observeGround currentTime p =
     (let p1 = p\<lparr>player_position := position (physicsBody p),
                 player_velocity := velocity (physicsBody p)\<rparr>;
          wasOnGround = player_onGround p1;
          p2 = p1\<lparr>player_onGround := onGround (physicsBody p1)\<rparr>;
          p3 = (if player_onGround p2 \<and> \<not> wasOnGround then p2\<lparr>jumpCount := 0\<rparr> else p2)
      in if \<not> player_onGround p3 \<and> wasOnGround
         then p3\<lparr>lastGroundedTime := currentTime\<rparr> else p3)"

definition jumpPhase :: "real \<Rightarrow> real \<Rightarrow> player \<Rightarrow> bool \<times> player" where
  \<comment> \<open>lines 255-268\<close>
  "jumpPhase currentTime jumpTime p =
     (if jumpRequested p then
        (let jumpBuffer = currentTime - jumpBufferTime p < jumpBufferWindow
         in if jumpBuffer then
              (let r = processJump jumpTime p
               in if fst r then (True, (snd r)\<lparr>jumpRequested := False\<rparr>) else (False, snd r))
            else (False, p\<lparr>jumpRequested := False\<rparr>))
      else (False, p))"

definition Player_update_full ::
  "real \<Rightarrow> real \<Rightarrow> real \<Rightarrow> real \<Rightarrow> player \<Rightarrow> bool \<times> player" where
  "Player_update_full deltaTime currentTime jumpTime moveTime p =
     (if isDead p then (False, p)
      else
        (let r = jumpPhase currentTime jumpTime (observeGround currentTime p)
         in (fst r, Movement_update deltaTime moveTime (snd r))))"

definition Player_update :: "real \<Rightarrow> real \<Rightarrow> real \<Rightarrow> real \<Rightarrow> player \<Rightarrow> player" where
  "Player_update deltaTime currentTime jumpTime moveTime p =
     snd (Player_update_full deltaTime currentTime jumpTime moveTime p)"

subsection \<open>What else writes the player\<close>

text \<open>
  The input bindings of \<open>setupInputBindings\<close>, and the other methods of Player that
  change its state. A key press carries the clock reading of its handler.
\<close>

datatype key = KeyW | KeyS | KeyA | KeyD | Space | ShiftLeft | F3

definition onKeyDown :: "key \<Rightarrow> real \<Rightarrow> player \<Rightarrow> player" where
  "onKeyDown k now p =
     (case k of
        KeyW \<Rightarrow> p\<lparr>moveInput := (moveInput p)\<lparr>vec_z := - 1\<rparr>\<rparr>
      | KeyS \<Rightarrow> p\<lparr>moveInput := (moveInput p)\<lparr>vec_z := 1\<rparr>\<rparr>
      | KeyA \<Rightarrow> p\<lparr>moveInput := (moveInput p)\<lparr>vec_x := - 1\<rparr>\<rparr>
      | KeyD \<Rightarrow> p\<lparr>moveInput := (moveInput p)\<lparr>vec_x := 1\<rparr>\<rparr>
      | Space \<Rightarrow> p\<lparr>jumpRequested := True, jumpBufferTime := now\<rparr>
      | ShiftLeft \<Rightarrow> p\<lparr>isSprinting := True\<rparr>
      | F3 \<Rightarrow> p)"

definition onKeyUp :: "key \<Rightarrow> player \<Rightarrow> player" where
  "onKeyUp k p =
     (case k of
        KeyW \<Rightarrow> p\<lparr>moveInput := (moveInput p)\<lparr>vec_z := 0\<rparr>\<rparr>
      | KeyS \<Rightarrow> p\<lparr>moveInput := (moveInput p)\<lparr>vec_z := 0\<rparr>\<rparr>
      | KeyA \<Rightarrow> p\<lparr>moveInput := (moveInput p)\<lparr>vec_x := 0\<rparr>\<rparr>
      | KeyD \<Rightarrow> p\<lparr>moveInput := (moveInput p)\<lparr>vec_x := 0\<rparr>\<rparr>
      | Space \<Rightarrow> p
      | ShiftLeft \<Rightarrow> p\<lparr>isSprinting := False\<rparr>
      | F3 \<Rightarrow> p)"

definition rotate :: "real \<Rightarrow> real \<Rightarrow> player \<Rightarrow> player" where
  "rotate dx dy p =
     (let ry = viewRotation_y p - dx * mouseSensitivity p;
          rx = viewRotation_x p - dy * mouseSensitivity p
      in p\<lparr>viewRotation_y := ry,
            viewRotation_x := max (- pi / 2 + 0.01) (min (pi / 2 - 0.01) rx)\<rparr>)"

definition die :: "player \<Rightarrow> player" where
  \<comment> \<open>The respawn that \<open>die\<close> schedules is the event \<open>Respawn\<close> below.\<close>
  "die p = (if isDead p then p else p\<lparr>isDead := True, moveInput := Vector3 0 0 0\<rparr>)"

definition takeDamage :: "real \<Rightarrow> real \<Rightarrow> player \<Rightarrow> player" where
  "takeDamage amount currentTime p =
     (if currentTime - lastDamageTime p < invulnerabilityDuration then p
      else if isDead p then p
      else
        (let p1 = p\<lparr>health := health p - amount, lastDamageTime := currentTime\<rparr>
         in if health p1 \<le> 0 then die (p1\<lparr>health := 0\<rparr>) else p1))"

definition heal :: "real \<Rightarrow> player \<Rightarrow> player" where
  "heal amount p =
     (if isDead p then p else p\<lparr>health := min (health p + amount) (maxHealth p)\<rparr>)"

definition respawn :: "player \<Rightarrow> player" where
  "respawn p =
     (let p1 = p\<lparr>health := maxHealth p, isDead := False, player_position := Vector3 0 2 0\<rparr>;
          b = physicsBody p1
      in p1\<lparr>physicsBody := b\<lparr>position := player_position p1, velocity := Vector3 0 0 0\<rparr>\<rparr>)"

text \<open>
  Everything that can happen to a player between two looks at it: an input event, damage,
  healing, the scheduled respawn, a step of the physics world (which leaves the player's
  body in some new state), or \<open>Player.update\<close> with its elapsed time and clock readings.
\<close>

datatype event =
    KeyDown key real
  | KeyUp key
  | MouseMove real real
  | TakeDamage real real
  | Heal real
  | Respawn
  | Physics body
  | Update real real real real

fun apply_event :: "event \<Rightarrow> player \<Rightarrow> player" where
  "apply_event (KeyDown k now) p = onKeyDown k now p"
| "apply_event (KeyUp k) p = onKeyUp k p"
| "apply_event (MouseMove dx dy) p = rotate dx dy p"
| "apply_event (TakeDamage amount now) p = takeDamage amount now p"
| "apply_event (Heal amount) p = heal amount p"
| "apply_event Respawn p = respawn p"
| "apply_event (Physics b) p = p\<lparr>physicsBody := b\<rparr>"
| "apply_event (Update dt now nowJ nowM) p = Player_update dt now nowJ nowM p"

fun run :: "event list \<Rightarrow> player \<Rightarrow> player" where
  "run [] p = p"
| "run (e # es) p = run es (apply_event e p)"

subsection \<open>Observing jumps\<close>

text \<open>
  \<open>jumpReady\<close> is the test \<open>processJump\<close> makes on the state it is handed: the cooldown
  has passed, and either a first jump is allowed (on the ground or within the coyote time,
  with no jump counted yet) or an air jump is (neither on the ground nor within the
  coyote time, with the jump count below the maximum). \<open>jumpConditions\<close> is the same
  test read on the state \<open>Player.update\<close> is handed: the body's \<open>onGround\<close> is what the
  update observes, a landing resets the count and leaving the ground stamps the time.
\<close>

definition jumpReady :: "real \<Rightarrow> player \<Rightarrow> bool" where
  "jumpReady t q \<longleftrightarrow>
     100 \<le> t - lastJumpTime q \<and>
     ((player_onGround q \<or> t - lastGroundedTime q < 150) \<and> jumpCount q = 0 \<or>
      \<not> (player_onGround q \<or> t - lastGroundedTime q < 150) \<and> jumpCount q < maxJumps q)"

definition jumpConditions :: "real \<Rightarrow> real \<Rightarrow> player \<Rightarrow> bool" where
  "jumpConditions currentTime jumpTime p =
     (let grounded = onGround (physicsBody p);
          count = (if grounded \<and> \<not> player_onGround p then 0 else jumpCount p);
          lastGrounded = (if \<not> grounded \<and> player_onGround p then currentTime
                          else lastGroundedTime p);
          firstJump = grounded \<or> jumpTime - lastGrounded < 150
      in 100 \<le> jumpTime - lastJumpTime p \<and>
         (firstJump \<and> count = 0 \<or> \<not> firstJump \<and> count < maxJumps p))"

text \<open>For each \<open>Update\<close> of a run, in order, whether it produced a jump.\<close>

fun jumps :: "event list \<Rightarrow> player \<Rightarrow> bool list" where
  "jumps [] p = []"
| "jumps (Update dt now t tm # es) p =
     fst (Player_update_full dt now t tm p) # jumps es (Player_update dt now t tm p)"
| "jumps (e # es) p = jumps es (apply_event e p)"

text \<open>
  \<open>waits t0 es p\<close>: along the run of \<open>es\<close> from \<open>p\<close> the jump key is not pressed, and every
  update is one of a dead player or happens less than 200 ms after \<open>t0\<close> and finds the jump
  conditions not met.
\<close>

fun waits :: "real \<Rightarrow> event list \<Rightarrow> player \<Rightarrow> bool" where
  "waits t0 [] p = True"
| "waits t0 (Update dt now t tm # es) p =
     ((isDead p \<or> (now - t0 < 200 \<and> \<not> jumpConditions now t p)) \<and>
      waits t0 es (Player_update dt now t tm p))"
| "waits t0 (KeyDown Space t' # es) p = False"
| "waits t0 (e # es) p = waits t0 es (apply_event e p)"

section \<open>Example states\<close>

text \<open>Concrete bodies and worlds on which the properties below are exercised.\<close>

definition mk_body :: "vec3 \<Rightarrow> vec3 \<Rightarrow> real \<Rightarrow> real \<Rightarrow> bool \<Rightarrow> body" where
  "mk_body pos vel im rest grounded =
     \<lparr>position = pos, velocity = vel, invMass = im, restitution = rest,
      radius = Some 0.5, isStatic = (im = 0), usesGravity = (im \<noteq> 0),
      onGround = grounded, collider = None\<rparr>"

definition rising_body :: body where
  \<comment> \<open>just above the ground, moving up, flagged as grounded\<close>
  "rising_body = mk_body (Vector3 0 0.1 0) (Vector3 0 1 0) (1 / 75) 0 True"

definition sunk_body :: body where
  \<comment> \<open>below the ground plane, falling\<close>
  "sunk_body = mk_body (Vector3 0 (- 0.2) 0) (Vector3 0 (- 5) 0) (1 / 75) 0 False"

definition high_body :: body where
  "high_body = mk_body (Vector3 0 2 0) (Vector3 0 0 0) (1 / 75) 0 True"

definition ball_left :: body where
  "ball_left = mk_body (Vector3 0.6 1 0) (Vector3 (- 1) 0 0) 1 1 False"

definition ball_right :: body where
  "ball_right = mk_body (Vector3 0 1 0) (Vector3 1 0 0) 1 1 False"

definition wall :: body where
  "wall = mk_body (Vector3 0 1 0) (Vector3 0 0 0) 0 0 False"

definition contact_x :: contact where
  "contact_x = \<lparr>normal = Vector3 1 0 0, depth = 0.4\<rparr>"

definition idle_step :: fixed_step where
  "idle_step timeStep bs = bs"

definition resting_body :: body where
  "resting_body = mk_body (Vector3 0 0.05 0) (Vector3 0 0 0) (1 / 75) 0 True"

definition airborne_body :: body where
  "airborne_body = mk_body (Vector3 0 0.5 0) (Vector3 0 7 0) (1 / 75) 0 False"

text \<open>
  A new player; the same after landing and a press of the jump key at time 1000; the same
  after jumping at 1010, leaving the ground at 1030 and a second press at 1100; and a
  player killed at 2000 whose key is pressed at 2100.
\<close>

definition fresh_player :: player where
  "fresh_player = Player_new None None airborne_body"

definition grounded_player :: player where
  "grounded_player =
     run [Physics resting_body, Update (1 / 60) 1000 1000 1000, KeyDown Space 1000] fresh_player"

definition coyote_player :: player where
  "coyote_player =
     run [Update (1 / 60) 1010 1010 1010, Physics airborne_body,
          Update (1 / 60) 1030 1030 1030, KeyDown Space 1100] grounded_player"

definition dead_player :: player where
  "dead_player =
     run [TakeDamage 100 2000, Physics resting_body, KeyDown Space 2100] fresh_player"

text \<open>What happens to \<open>coyote_player\<close> while its second request waits.\<close>

definition waiting_trace :: "event list" where
  "waiting_trace = [Update (1 / 60) 1120 1120 1120, MouseMove 3 4, Update (1 / 60) 1150 1150 1150]"

text \<open>
  A player moving right at speed 4 who now presses forward, and a player sprinting
  forward at speed 12 who changed direction 50 ms ago and has just jumped off the ground.
\<close>

definition turning_player :: player where
  "turning_player =
     (Player_new None None (mk_body (Vector3 0 0.05 0) (Vector3 4 0 0) (1 / 75) 0 True))
       \<lparr>moveInput := Vector3 0 0 (- 1), player_onGround := True,
        movement := Movement_new\<lparr>moveDirection := Vector3 1 0 0, lastDirection := Vector3 1 0 0\<rparr>\<rparr>"

definition boosted_player :: player where
  "boosted_player =
     (Player_new None None (mk_body (Vector3 0 0.05 0) (Vector3 0 7.5 (- 12)) (1 / 75) 0 True))
       \<lparr>moveInput := Vector3 0 0 (- 1), isSprinting := True, isJumping := True,
        jumpCount := 1, player_onGround := True,
        movement := Movement_new\<lparr>moveDirection := Vector3 0 0 (- 1),
                                 lastDirection := Vector3 0 0 (- 1),
                                 directionChangeTime := 4950,
                                 hasChangedDirection := True\<rparr>\<rparr>"

section \<open>Basic facts\<close>

lemma js_or_zero [simp]: "js_or v 0 = v"
  by (simp add: js_or_def)

lemma vec_sel [simp]:
  "vec_x (Vector3 a b c) = a" "vec_y (Vector3 a b c) = b" "vec_z (Vector3 a b c) = c"
  by (simp_all add: Vector3_def)

lemma vec3_eq_iff:
  "(u::vec3) = v \<longleftrightarrow> vec_x u = vec_x v \<and> vec_y u = vec_y v \<and> vec_z u = vec_z v"
  by (cases u, cases v) auto

lemma mk_body_sel [simp]:
  "position (mk_body pos vel im rest g) = pos"
  "velocity (mk_body pos vel im rest g) = vel"
  "invMass (mk_body pos vel im rest g) = im"
  "restitution (mk_body pos vel im rest g) = rest"
  "onGround (mk_body pos vel im rest g) = g"
  "isStatic (mk_body pos vel im rest g) = (im = 0)"
  by (simp_all add: mk_body_def)

section \<open>Adding bodies\<close>

text \<open>
  Claim C9. An argument that is not a PhysicsBody makes \<open>addBody\<close> log one error and
  return nothing, with both collections unchanged; a PhysicsBody is appended to the
  static collection when its \<open>isStatic\<close> flag is set and to the dynamic collection
  otherwise, and is returned. There is no other outcome: the function is total.
\<close>

theorem addBody_contract:
  "fst (addBody (NotABody s) w) = None \<and>
   bodies (snd (addBody (NotABody s) w)) = bodies w \<and>
   staticBodies (snd (addBody (NotABody s) w)) = staticBodies w \<and>
   console_errors (snd (addBody (NotABody s) w)) =
     console_errors w @ [''Trying to add a non-PhysicsBody object to the physics world''] \<and>
   fst (addBody (PhysicsBody b) w) = Some b \<and>
   (isStatic b \<longrightarrow>
      staticBodies (snd (addBody (PhysicsBody b) w)) = staticBodies w @ [b] \<and>
      bodies (snd (addBody (PhysicsBody b) w)) = bodies w) \<and>
   (\<not> isStatic b \<longrightarrow>
      bodies (snd (addBody (PhysicsBody b) w)) = bodies w @ [b] \<and>
      staticBodies (snd (addBody (PhysicsBody b) w)) = staticBodies w) \<and>
   console_errors (snd (addBody (PhysicsBody b) w)) = console_errors w"
  by (simp add: addBody_def)

text \<open>The same at a fresh world: a string is rejected, a wall goes to the static
  collection and a ball to the dynamic one.\<close>

theorem addBody_contract_witness:
  "fst (addBody (NotABody ''crate'') (PhysicsWorld_new 60)) = None \<and>
   bodies (snd (addBody (NotABody ''crate'') (PhysicsWorld_new 60))) = [] \<and>
   isStatic wall \<and>
   staticBodies (snd (addBody (PhysicsBody wall) (PhysicsWorld_new 60))) = [] @ [wall] \<and>
   \<not> isStatic ball_left \<and>
   bodies (snd (addBody (PhysicsBody ball_left) (PhysicsWorld_new 60))) = [] @ [ball_left]"
  using addBody_contract [of "''crate''" "PhysicsWorld_new 60" wall]
        addBody_contract [of "''crate''" "PhysicsWorld_new 60" ball_left]
  by (simp add: PhysicsWorld_new_def wall_def ball_left_def)

section \<open>The ground check\<close>

text \<open>
  Claim C2, as stated, fails in its last clause: a body below the threshold that moves up
  faster than the tolerance is not marked airborne, it keeps the flag it had. At
  \<open>rising_body\<close> (height 0.1, vertical velocity 1, flagged as grounded) the precondition of
  the first clause is false and yet the body ends the check with \<open>onGround\<close> set.
\<close>

theorem checkWorldBounds_other_case_counterexample:
  "\<not> (vec_y (position rising_body) < 0.15 \<and> vec_y (velocity rising_body) \<le> 0.1) \<and>
   onGround (checkWorldBounds rising_body)"
  by (simp add: rising_body_def checkWorldBounds_def groundThreshold_def Let_def)

text \<open>
  Claim C2, amended. A body with \<open>position.y < 0.15\<close> and \<open>velocity.y \<le> 0.1\<close> ends the
  check with \<open>onGround\<close> set and a vertical velocity that is the old one with a negative
  value replaced by 0, and a height below 0 is set to 0.05. A body with
  \<open>position.y \<ge> 0.15\<close> ends the check with \<open>onGround\<close> cleared. A body with
  \<open>position.y < 0.15\<close> and \<open>velocity.y > 0.1\<close> keeps the value of \<open>onGround\<close> it had.
\<close>

theorem checkWorldBounds_ground:
  "(vec_y (position b) < 0.15 \<and> vec_y (velocity b) \<le> 0.1 \<longrightarrow>
      onGround (checkWorldBounds b) \<and>
      0 \<le> vec_y (velocity (checkWorldBounds b)) \<and>
      vec_y (velocity (checkWorldBounds b)) = max 0 (vec_y (velocity b)) \<and>
      (vec_y (position b) < 0 \<longrightarrow> vec_y (position (checkWorldBounds b)) = 0.05)) \<and>
   (0.15 \<le> vec_y (position b) \<longrightarrow> \<not> onGround (checkWorldBounds b)) \<and>
   (vec_y (position b) < 0.15 \<and> 0.1 < vec_y (velocity b) \<longrightarrow>
      onGround (checkWorldBounds b) = onGround b)"
  by (simp add: checkWorldBounds_def groundThreshold_def Let_def)

text \<open>One body for each of the three cases: sunk and falling, high up, and rising.\<close>

theorem checkWorldBounds_ground_witness:
  "vec_y (position sunk_body) < 0.15 \<and> vec_y (velocity sunk_body) \<le> 0.1 \<and>
   vec_y (position sunk_body) < 0 \<and>
   onGround (checkWorldBounds sunk_body) \<and>
   vec_y (velocity (checkWorldBounds sunk_body)) = 0 \<and>
   vec_y (position (checkWorldBounds sunk_body)) = 0.05 \<and>
   0.15 \<le> vec_y (position high_body) \<and> \<not> onGround (checkWorldBounds high_body) \<and>
   vec_y (position rising_body) < 0.15 \<and> 0.1 < vec_y (velocity rising_body) \<and>
   onGround (checkWorldBounds rising_body) = onGround rising_body"
  using checkWorldBounds_ground [of sunk_body] checkWorldBounds_ground [of high_body]
        checkWorldBounds_ground [of rising_body]
  by (simp add: sunk_body_def high_body_def rising_body_def)

text \<open>
  Claim C10. For a body with \<open>position.y < 0.15\<close> and \<open>velocity.y > 0.1\<close> the check
  changes nothing but the height, which becomes 0.05 when it was below 0: the
  \<open>onGround\<close> flag, the velocity and every other field stay as they were.
\<close>

theorem checkWorldBounds_rising:
  assumes "vec_y (position b) < 0.15" and "0.1 < vec_y (velocity b)"
  shows "checkWorldBounds b =
           b\<lparr>position := (position b)\<lparr>vec_y :=
               (if vec_y (position b) < 0 then 0.05 else vec_y (position b))\<rparr>\<rparr> \<and>
         onGround (checkWorldBounds b) = onGround b \<and>
         velocity (checkWorldBounds b) = velocity b"
  using assms by (simp add: checkWorldBounds_def groundThreshold_def Let_def)

theorem checkWorldBounds_rising_witness:
  "vec_y (position rising_body) < 0.15 \<and> 0.1 < vec_y (velocity rising_body) \<and>
   onGround (checkWorldBounds rising_body) = True \<and>
   velocity (checkWorldBounds rising_body) = Vector3 0 1 0 \<and>
   position (checkWorldBounds rising_body) = Vector3 0 0.1 0"
proof -
  have h1: "vec_y (position rising_body) < 0.15" and h2: "0.1 < vec_y (velocity rising_body)"
    by (simp_all add: rising_body_def)
  show ?thesis
    using h1 h2 checkWorldBounds_rising [OF h1 h2]
    by (simp add: rising_body_def Vector3_def)
qed

section \<open>Facts about rounding\<close>

lemma pow2_powr: "pow2 e = 2 powr (of_int e)"
proof (cases "0 \<le> e")
  case True
  then have "2 powr (of_int e) = (2::real) powr (real (nat e))" by simp
  also have "\<dots> = 2 ^ nat e" by (simp add: powr_realpow)
  finally show ?thesis using True by (simp add: pow2_def)
next
  case False
  then have "(2::real) powr (of_int e) = 2 powr (- real (nat (- e)))" by simp
  also have "\<dots> = 1 / 2 ^ nat (- e)" by (simp add: powr_minus powr_realpow field_simps)
  finally show ?thesis using False by (simp add: pow2_def)
qed

lemma pow2_pos [simp]: "0 < pow2 e"
  by (simp add: pow2_powr)

lemma pow2_add: "pow2 (a + b) = pow2 a * pow2 b"
  by (simp add: pow2_powr powr_add)

lemma pow2_mono: "a \<le> b \<Longrightarrow> pow2 a \<le> pow2 b"
  by (simp add: pow2_powr)

lemma round_half_even_error: "\<bar>of_int (round_half_even y) - y\<bar> \<le> 1 / 2"
  unfolding round_half_even_def Let_def by (auto simp: abs_if) linarith+

lemma round_half_even_nonneg: "0 \<le> y \<Longrightarrow> 0 \<le> round_half_even y"
  unfolding round_half_even_def Let_def by (auto simp: abs_if)

lemma round_half_even_eq:
  assumes "\<bar>y - of_int m\<bar> < 1 / 2"
  shows "round_half_even y = m"
proof -
  consider "of_int m \<le> y" | "y < of_int m" by linarith
  then show ?thesis
  proof cases
    case 1
    then have "\<lfloor>y\<rfloor> = m" using assms by (intro floor_unique) (auto simp: abs_if split: if_splits)
    then show ?thesis using assms 1 by (simp add: round_half_even_def Let_def abs_if split: if_splits)
  next
    case 2
    then have "\<lfloor>y\<rfloor> = m - 1" using assms by (intro floor_unique) (auto simp: abs_if split: if_splits)
    then show ?thesis using assms 2 by (simp add: round_half_even_def Let_def abs_if split: if_splits)
  qed
qed

lemma round_half_even_tie:
  assumes "y = of_int f + 1 / 2"
  shows "round_half_even y = (if even f then f else f + 1)"
proof -
  have "\<lfloor>y\<rfloor> = f" using assms by (intro floor_unique) auto
  then show ?thesis using assms by (simp add: round_half_even_def Let_def)
qed

lemma exponent_from_eq:
  "e0 \<le> e \<Longrightarrow> nat (e - e0) \<le> n \<Longrightarrow> (e0 < e \<longrightarrow> pow2 e \<le> x) \<Longrightarrow> x < pow2 (e + 1) \<Longrightarrow>
   exponent_from n e0 x = e"
proof (induction n arbitrary: e0)
  case 0
  then show ?case by simp
next
  case (Suc n)
  show ?case
  proof (cases "x < pow2 (e0 + 1)")
    case True
    have "e0 = e"
    proof (rule ccontr)
      assume "e0 \<noteq> e"
      then have "e0 + 1 \<le> e" and "pow2 e \<le> x" using Suc.prems by auto
      then have "pow2 (e0 + 1) \<le> x" using pow2_mono [of "e0 + 1" e] by linarith
      then show False using True by simp
    qed
    then show ?thesis using True by simp
  next
    case False
    then have "e0 \<noteq> e" using Suc.prems(4) by auto
    then have "e0 + 1 \<le> e" "nat (e - (e0 + 1)) \<le> n" "e0 + 1 < e \<longrightarrow> pow2 e \<le> x"
      using Suc.prems by auto
    from Suc.IH [OF this Suc.prems(4)] show ?thesis using False by simp
  qed
qed

lemma exponent_from_bounds:
  "e0 \<le> exponent_from n e0 x \<and> (exponent_from n e0 x = e0 \<or> pow2 (exponent_from n e0 x) \<le> x)"
proof (induction n arbitrary: e0)
  case 0
  then show ?case by simp
next
  case (Suc n)
  show ?case
  proof (cases "x < pow2 (e0 + 1)")
    case True
    then show ?thesis by simp
  next
    case False
    then have "pow2 (e0 + 1) \<le> x" by simp
    then show ?thesis using Suc.IH [of "e0 + 1"] False by auto
  qed
qed

lemma exponent_eq:
  assumes "- 1022 \<le> e" and "e \<le> 1023" and "- 1022 < e \<longrightarrow> pow2 e \<le> \<bar>x\<bar>"
    and "\<bar>x\<bar> < pow2 (e + 1)"
  shows "exponent x = e"
  unfolding exponent_def using assms by (intro exponent_from_eq) auto

lemma binary64_nonneg: "0 \<le> x \<Longrightarrow> 0 \<le> binary64 x"
proof -
  assume "0 \<le> x"
  define q where "q = pow2 (exponent x - 52)"
  have "0 < q" by (simp add: q_def)
  then have "0 \<le> x / q" using \<open>0 \<le> x\<close> by simp
  then have "0 \<le> round_half_even (x / q)" by (rule round_half_even_nonneg)
  then have "0 \<le> of_int (round_half_even (x / q)) * q" using \<open>0 < q\<close> by simp
  then show ?thesis by (simp add: binary64_def Let_def q_def)
qed

lemma binary64_error:
  "\<bar>binary64 x - x\<bar> \<le> \<bar>x\<bar> / 2 ^ 53 + pow2 (- 1075)"
proof -
  define e where "e = exponent x"
  define q where "q = pow2 (e - 52)"
  have qpos: "0 < q" by (simp add: q_def)
  have b: "binary64 x = of_int (round_half_even (x / q)) * q"
    by (simp add: binary64_def Let_def e_def q_def)
  have "binary64 x - x = (of_int (round_half_even (x / q)) - x / q) * q"
    unfolding b using qpos by (simp add: algebra_simps)
  then have "\<bar>binary64 x - x\<bar> = \<bar>of_int (round_half_even (x / q)) - x / q\<bar> * q"
    using qpos by (simp add: abs_mult)
  also have "\<dots> \<le> 1 / 2 * q"
    using round_half_even_error [of "x / q"] qpos by (intro mult_right_mono) auto
  finally have err: "\<bar>binary64 x - x\<bar> \<le> q / 2" by simp
  have q53: "q / 2 = pow2 (e - 53)"
  proof -
    have "pow2 (e - 52) = pow2 (e - 53) * pow2 1" by (simp add: pow2_add [symmetric])
    then show ?thesis by (simp add: q_def pow2_def)
  qed
  from exponent_from_bounds [of "- 1022" 2045 "\<bar>x\<bar>"]
  consider "e = - 1022" | "pow2 e \<le> \<bar>x\<bar>" by (auto simp: e_def exponent_def)
  then show ?thesis
  proof cases
    case 1
    then have "q / 2 = pow2 (- 1075)" using q53 by simp
    moreover have "0 \<le> \<bar>x\<bar> / 2 ^ 53" by simp
    ultimately show ?thesis using err by linarith
  next
    case 2
    moreover have "pow2 e = pow2 (e - 53) * 2 ^ 53"
    proof -
      have "pow2 e = pow2 (e - 53) * pow2 53" by (simp add: pow2_add [symmetric])
      then show ?thesis by (simp add: pow2_def)
    qed
    ultimately have "pow2 (e - 53) \<le> \<bar>x\<bar> / 2 ^ 53" by (simp add: field_simps)
    then show ?thesis using err q53 pow2_pos [of "- 1075"] by linarith
  qed
qed

text \<open>
  Evaluating a rounding: with the exponent \<open>e\<close> of \<open>x\<close> at hand, the result is the multiple
  \<open>m\<close> of the unit in the last place that lies within half a unit of \<open>x\<close>, and at a tie
  the even one of the two neighbours.
\<close>

lemma binary64_eval:
  assumes "- 1022 \<le> e" and "e \<le> 1023" and "- 1022 < e \<longrightarrow> pow2 e \<le> \<bar>x\<bar>"
    and "\<bar>x\<bar> < pow2 (e + 1)"
    and "\<bar>x / pow2 (e - 52) - of_int m\<bar> < 1 / 2"
    and "r = of_int m * pow2 (e - 52)"
  shows "binary64 x = r"
  using exponent_eq [OF assms(1-4)] round_half_even_eq [OF assms(5)] assms(6)
  by (simp add: binary64_def Let_def)

lemma binary64_eval_tie:
  assumes "- 1022 \<le> e" and "e \<le> 1023" and "- 1022 < e \<longrightarrow> pow2 e \<le> \<bar>x\<bar>"
    and "\<bar>x\<bar> < pow2 (e + 1)"
    and "x / pow2 (e - 52) = of_int f + 1 / 2"
    and "r = of_int (if even f then f else f + 1) * pow2 (e - 52)"
  shows "binary64 x = r"
  using exponent_eq [OF assms(1-4)] round_half_even_tie [OF assms(5)] assms(6)
  by (simp add: binary64_def Let_def)

section \<open>The fixed-timestep loop\<close>

text \<open>
  One run of the loop, for a timestep \<open>ts\<close> and a bound \<open>B\<close> on the accumulator below which
  every rounding is off by at most \<open>eta\<close>, at most half a timestep. Each round takes at
  least half a timestep from the accumulator, so the loop ends; it ends below the timestep,
  and after \<open>n\<close> rounds the accumulator is within \<open>n * eta\<close> of the exact difference.
\<close>

lemma update_loop_run:
  assumes ts: "0 < ts" and eta: "0 \<le> eta" "eta \<le> ts / 2"
    and rnd: "\<And>x. 0 \<le> x \<Longrightarrow> x \<le> B \<Longrightarrow> \<bar>binary64 x - x\<bar> \<le> eta"
  shows "fixedTimeStep w = ts \<Longrightarrow> 0 \<le> accumulator w \<Longrightarrow> accumulator w \<le> B \<Longrightarrow>
     \<exists>w' n. update_loop step w calls = Some (w', calls @ replicate n ts) \<and>
          fixedTimeStep w' = ts \<and> 0 \<le> accumulator w' \<and> accumulator w' < ts \<and>
          \<bar>accumulator w' - (accumulator w - real n * ts)\<bar> \<le> real n * eta \<and>
          real n * ts \<le> 2 * accumulator w \<and>
          (bodies w', staticBodies w') = (step ts ^^ n) (bodies w, staticBodies w)"
proof (induction "nat \<lfloor>2 * accumulator w / ts\<rfloor>" arbitrary: w calls rule: less_induct)
  case less
  show ?case
  proof (cases "ts \<le> accumulator w")
    case False
    then have "update_loop step w calls = Some (w, calls @ replicate 0 ts)"
      using less.prems by (subst update_loop.simps) simp
    then show ?thesis
      using False less.prems by (intro exI [of _ w] exI [of _ "0::nat"]) simp
  next
    case True
    let ?a = "accumulator w"
    let ?w1 = "fixedUpdate step ts w"
    let ?b = "binary64 (?a - ts)"
    let ?w2 = "?w1\<lparr>accumulator := ?b\<rparr>"
    have ts1: "fixedTimeStep ?w1 = ts" and acc1: "accumulator ?w1 = ?a"
      and bs1: "(bodies ?w1, staticBodies ?w1) = step ts (bodies w, staticBodies w)"
      using less.prems by (simp_all add: fixedUpdate_def Let_def)
    have x: "0 \<le> ?a - ts" "?a - ts \<le> B" using True ts less.prems by simp_all
    have b0: "0 \<le> ?b" using x(1) by (rule binary64_nonneg)
    have be: "\<bar>?b - (?a - ts)\<bar> \<le> eta" using x by (rule rnd)
    have bh: "?b \<le> ?a - ts / 2" using be eta by linarith
    have bB: "?b \<le> B" using bh ts less.prems by linarith
    have "2 * ?b / ts \<le> 2 * ?a / ts - 1"
    proof -
      have "2 * ?b \<le> 2 * ?a - ts" using bh by simp
      then have "2 * ?b / ts \<le> (2 * ?a - ts) / ts" using ts by (simp add: divide_right_mono)
      also have "\<dots> = 2 * ?a / ts - 1" using ts by (simp add: field_simps)
      finally show ?thesis .
    qed
    then have "\<lfloor>2 * ?b / ts\<rfloor> \<le> \<lfloor>2 * ?a / ts - 1\<rfloor>" by (rule floor_mono)
    then have fl: "\<lfloor>2 * ?b / ts\<rfloor> \<le> \<lfloor>2 * ?a / ts\<rfloor> - 1" by simp
    have "1 \<le> 2 * ?a / ts" using True ts by (simp add: field_simps)
    then have "1 \<le> \<lfloor>2 * ?a / ts\<rfloor>" by simp
    then have m: "nat \<lfloor>2 * accumulator ?w2 / ts\<rfloor> < nat \<lfloor>2 * ?a / ts\<rfloor>"
      using fl by simp
    have p2: "fixedTimeStep ?w2 = ts" "0 \<le> accumulator ?w2" "accumulator ?w2 \<le> B"
      using ts1 b0 bB by simp_all
    from less.hyps [OF m p2, of "calls @ [ts]"]
    obtain w' n where w':
      "update_loop step ?w2 (calls @ [ts]) = Some (w', (calls @ [ts]) @ replicate n ts)"
      "fixedTimeStep w' = ts" "0 \<le> accumulator w'" "accumulator w' < ts"
      "\<bar>accumulator w' - (accumulator ?w2 - real n * ts)\<bar> \<le> real n * eta"
      "real n * ts \<le> 2 * accumulator ?w2"
      "(bodies w', staticBodies w') = (step ts ^^ n) (bodies ?w2, staticBodies ?w2)"
      by blast
    have run: "update_loop step w calls = update_loop step ?w2 (calls @ [ts])"
      using True less.prems(1) by (subst update_loop.simps) (simp add: Let_def ts1 acc1)
    have c1: "update_loop step w calls = Some (w', calls @ replicate (Suc n) ts)"
      using run w'(1) by (simp add: replicate_app_Cons_same)
    have c2: "\<bar>accumulator w' - (?a - real (Suc n) * ts)\<bar> \<le> real (Suc n) * eta"
      using w'(5) be by (simp add: algebra_simps)
    have c3: "real (Suc n) * ts \<le> 2 * ?a"
      using w'(6) bh by (simp add: algebra_simps)
    have "(bodies ?w2, staticBodies ?w2) = step ts (bodies w, staticBodies w)"
      using bs1 by simp
    then have c4: "(bodies w', staticBodies w') = (step ts ^^ Suc n) (bodies w, staticBodies w)"
      using w'(7) by (simp add: funpow_swap1)
    show ?thesis
      using c1 c2 c3 c4 w'(2,3,4) by (intro exI [of _ w'] exI [of _ "Suc n"]) simp
  qed
qed

text \<open>
  A whole call of \<open>update\<close>. The timestep is between \<open>2 ^ - 1000\<close> and \<open>2 ^ 1000\<close> and the
  time to consume is at most \<open>2 ^ 24\<close> timesteps, so every number met is a double well
  inside the normal range and every rounding is off by at most \<open>ts / 2 ^ 27\<close>.
\<close>

lemma update_run:
  assumes "pow2 (- 1000) \<le> fixedTimeStep w" and "fixedTimeStep w \<le> pow2 1000"
    and "0 \<le> accumulator w" and "0 \<le> deltaTime"
    and "accumulator w + deltaTime \<le> 2 ^ 24 * fixedTimeStep w"
  shows "\<exists>w' n. update step deltaTime w = Some (w', replicate n (fixedTimeStep w)) \<and>
           \<lfloor>(accumulator w + deltaTime) / fixedTimeStep w\<rfloor> - 1 \<le> int n \<and>
           int n \<le> \<lfloor>(accumulator w + deltaTime) / fixedTimeStep w\<rfloor> + 1 \<and>
           0 \<le> accumulator w' \<and> accumulator w' < fixedTimeStep w \<and>
           \<bar>accumulator w' - (accumulator w + deltaTime - real n * fixedTimeStep w)\<bar>
             \<le> (real n + 1) * fixedTimeStep w / 2 ^ 27 \<and>
           fixedTimeStep w' = fixedTimeStep w \<and>
           (bodies w', staticBodies w') =
             (step (fixedTimeStep w) ^^ n) (bodies w, staticBodies w)"
proof -
  define ts where "ts = fixedTimeStep w"
  define S where "S = accumulator w + deltaTime"
  define B where "B = 2 ^ 25 * ts"
  define eta where "eta = ts / 2 ^ 27"
  have ts: "0 < ts" unfolding ts_def using assms(1) pow2_pos [of "- 1000"] by linarith
  have S: "0 \<le> S" "S \<le> 2 ^ 24 * ts" using assms by (simp_all add: S_def ts_def)
  have eta: "0 \<le> eta" "eta \<le> ts / 2" using ts by (simp_all add: eta_def)
  have tiny: "pow2 (- 1075) \<le> ts / 2 ^ 28"
  proof -
    have "pow2 (- 1047) = pow2 (- 1075) * pow2 28" by (simp add: pow2_add [symmetric])
    then have "pow2 (- 1075) * 2 ^ 28 = pow2 (- 1047)" by (simp add: pow2_def)
    moreover have "pow2 (- 1047) \<le> pow2 (- 1000)" by (rule pow2_mono) simp
    ultimately have "pow2 (- 1075) * 2 ^ 28 \<le> ts" using assms(1) by (simp add: ts_def)
    then show ?thesis by (simp add: field_simps)
  qed
  have rnd: "\<bar>binary64 x - x\<bar> \<le> eta" if "0 \<le> x" "x \<le> B" for x
  proof -
    have "\<bar>x\<bar> / 2 ^ 53 \<le> B / 2 ^ 53" using that by (simp add: divide_right_mono)
    also have "\<dots> = ts / 2 ^ 28" by (simp add: B_def)
    finally have "\<bar>x\<bar> / 2 ^ 53 + pow2 (- 1075) \<le> ts / 2 ^ 28 + ts / 2 ^ 28"
      using tiny by linarith
    also have "\<dots> = eta" by (simp add: eta_def)
    finally show ?thesis using binary64_error [of x] by linarith
  qed
  let ?w0 = "w\<lparr>accumulator := binary64 S\<rparr>"
  have SB: "S \<le> B" using S ts by (simp add: B_def)
  have a0: "0 \<le> binary64 S" using S(1) by (rule binary64_nonneg)
  have ae: "\<bar>binary64 S - S\<bar> \<le> eta" using S(1) SB by (rule rnd)
  have eta_ts: "eta \<le> ts" using eta ts by linarith
  have S2: "S \<le> 16777216 * ts" using S(2) by simp
  have B2: "B = 33554432 * ts" by (simp add: B_def)
  have aB: "binary64 S \<le> B" unfolding B2 using ae S2 ts eta_ts by linarith
  have p0: "fixedTimeStep ?w0 = ts" "0 \<le> accumulator ?w0" "accumulator ?w0 \<le> B"
    using a0 aB by (simp_all add: ts_def)
  from update_loop_run [OF ts eta rnd p0, of step "[]"]
  obtain w' n where w':
    "update_loop step ?w0 [] = Some (w', [] @ replicate n ts)"
    "fixedTimeStep w' = ts" "0 \<le> accumulator w'" "accumulator w' < ts"
    "\<bar>accumulator w' - (accumulator ?w0 - real n * ts)\<bar> \<le> real n * eta"
    "real n * ts \<le> 2 * accumulator ?w0"
    "(bodies w', staticBodies w') = (step ts ^^ n) (bodies ?w0, staticBodies ?w0)"
    by blast
  define P where "P = real n * ts"
  define d where "d = accumulator w'"
  have P: "P \<le> 2 * binary64 S" using w'(6) by (simp add: P_def)
  have Pe: "real n * eta = P / 2 ^ 27" by (simp add: P_def eta_def)
  have d1: "\<bar>d - (binary64 S - P)\<bar> \<le> P / 2 ^ 27"
    using w'(5) Pe by (simp add: d_def P_def)
  have split: "(P + ts) / 2 ^ 27 = P / 2 ^ 27 + eta"
    by (simp add: eta_def add_divide_distrib)
  have d2: "\<bar>d - (S - P)\<bar> \<le> (P + ts) / 2 ^ 27"
    unfolding split using d1 ae by linarith
  have "P + ts < 134217728 * ts" using P ae S2 ts eta_ts by linarith
  then have small: "(P + ts) / 2 ^ 27 < ts" by simp
  have d: "0 \<le> d" "d < ts" using w'(3,4) by (simp_all add: d_def)
  have lo: "- ts < S - P" and hi: "S - P < 2 * ts"
    using d d2 small by linarith+
  have "real n - 1 < S / ts"
  proof -
    have "(real n - 1) * ts < S" using lo by (simp add: P_def algebra_simps)
    then show ?thesis using ts by (simp add: pos_less_divide_eq)
  qed
  then have "real_of_int (int n - 1) \<le> S / ts" by simp
  then have f1: "int n - 1 \<le> \<lfloor>S / ts\<rfloor>" by (simp only: le_floor_iff)
  have "S / ts < real n + 2"
  proof -
    have "S < (real n + 2) * ts" using hi by (simp add: P_def algebra_simps)
    then show ?thesis using ts by (simp add: pos_divide_less_eq)
  qed
  then have "S / ts < real_of_int (int n + 2)" by simp
  then have f2: "\<lfloor>S / ts\<rfloor> < int n + 2" by (simp only: floor_less_iff)
  have e: "(real n + 1) * ts / 2 ^ 27 = (P + ts) / 2 ^ 27"
    by (simp add: P_def algebra_simps)
  have "update step deltaTime w = Some (w', replicate n ts)"
    using w'(1) by (simp add: update_def S_def)
  moreover have "\<bar>d - (S - real n * ts)\<bar> \<le> (real n + 1) * ts / 2 ^ 27"
    using d2 unfolding e by (simp add: P_def)
  moreover have "(bodies w', staticBodies w') = (step ts ^^ n) (bodies w, staticBodies w)"
    using w'(7) by simp
  ultimately show ?thesis
    using f1 f2 d w'(2) unfolding d_def S_def ts_def
    by (intro exI [of _ w'] exI [of _ n]) simp
qed

text \<open>
  The world of the game runs at 60 physics steps per second: its timestep is the double
  nearest to 1/60, a little below 1/60.
\<close>

lemma PhysicsWorld_new_60:
  "fixedTimeStep (PhysicsWorld_new 60) = 4803839602528529 / 288230376151711744"
  "accumulator (PhysicsWorld_new 60) = 0"
  "bodies (PhysicsWorld_new 60) = []" "staticBodies (PhysicsWorld_new 60) = []"
proof -
  have "binary64 (1 / 60) = 4803839602528529 / 288230376151711744"
    by (rule binary64_eval [where e = "-6" and m = 4803839602528529]) (simp_all add: pow2_def)
  then show "fixedTimeStep (PhysicsWorld_new 60) = 4803839602528529 / 288230376151711744"
    by (simp add: PhysicsWorld_new_def)
qed (simp_all add: PhysicsWorld_new_def)

text \<open>
  With a step that leaves the bodies alone, a round of the loop changes the accumulator
  only.
\<close>

lemma update_loop_idle_round:
  assumes "fixedTimeStep w = ts" and "ts \<le> a" and "binary64 (a - ts) = b"
    and "update_loop idle_step (w\<lparr>accumulator := b\<rparr>) (replicate k' ts) = r" and "k' = Suc k"
  shows "update_loop idle_step (w\<lparr>accumulator := a\<rparr>) (replicate k ts) = r"
  using assms
  by (subst update_loop.simps)
     (simp add: fixedUpdate_def idle_step_def Let_def replicate_app_Cons_same)

lemma update_loop_idle_end:
  assumes "fixedTimeStep w = ts" and "a < ts"
  shows "update_loop idle_step (w\<lparr>accumulator := a\<rparr>) calls = Some (w\<lparr>accumulator := a\<rparr>, calls)"
  using assms by (subst update_loop.simps) simp

text \<open>
  A frame of 0.08333333333333333 s (the double nearest to 1/12) at the same rate: the
  frame is shorter than five timesteps and yet five steps are made, the last one on an
  accumulator that rounding has left just above the timestep.
\<close>

lemma update_twelfth_second:
  "update idle_step (6004799503160661 / 72057594037927936) (PhysicsWorld_new 60) =
     Some ((PhysicsWorld_new 60)\<lparr>accumulator := 1 / 144115188075855872\<rparr>,
           replicate 5 (4803839602528529 / 288230376151711744))"
proof -
  let ?w = "PhysicsWorld_new 60"
  let ?ts = "4803839602528529 / 288230376151711744 :: real"
  let ?r = "Some (?w\<lparr>accumulator := 1 / 144115188075855872\<rparr>, replicate 5 ?ts)"
  note ts = PhysicsWorld_new_60(1)
  have s0: "binary64 (6004799503160661 / 72057594037927936 - ?ts) = 4803839602528529 / 72057594037927936"
    by (rule binary64_eval [where e = "-4" and m = 4803839602528529]) (simp_all add: pow2_def)
  have s1: "binary64 (4803839602528529 / 72057594037927936 - ?ts) = 3602879701896397 / 72057594037927936"
    by (rule binary64_eval_tie [where e = "-5" and f = 7205759403792793]) (simp_all add: pow2_def)
  have s2: "binary64 (3602879701896397 / 72057594037927936 - ?ts) = 2401919801264265 / 72057594037927936"
    by (rule binary64_eval_tie [where e = "-5" and f = 4803839602528529]) (simp_all add: pow2_def)
  have s3: "binary64 (2401919801264265 / 72057594037927936 - ?ts) = 4803839602528531 / 288230376151711744"
    by (rule binary64_eval [where e = "-6" and m = 4803839602528531]) (simp_all add: pow2_def)
  have s4: "binary64 (4803839602528531 / 288230376151711744 - ?ts) = 1 / 144115188075855872"
    by (rule binary64_eval [where e = "-57" and m = 4503599627370496]) (simp_all add: pow2_def)
  have c5: "update_loop idle_step (?w\<lparr>accumulator := 1 / 144115188075855872\<rparr>) (replicate 5 ?ts) = ?r"
    by (rule update_loop_idle_end [OF ts]) simp
  have c4: "update_loop idle_step (?w\<lparr>accumulator := 4803839602528531 / 288230376151711744\<rparr>) (replicate 4 ?ts) = ?r"
    by (rule update_loop_idle_round [OF ts _ s4 c5]) simp_all
  have c3: "update_loop idle_step (?w\<lparr>accumulator := 2401919801264265 / 72057594037927936\<rparr>) (replicate 3 ?ts) = ?r"
    by (rule update_loop_idle_round [OF ts _ s3 c4]) simp_all
  have c2: "update_loop idle_step (?w\<lparr>accumulator := 3602879701896397 / 72057594037927936\<rparr>) (replicate 2 ?ts) = ?r"
    by (rule update_loop_idle_round [OF ts _ s2 c3]) simp_all
  have c1: "update_loop idle_step (?w\<lparr>accumulator := 4803839602528529 / 72057594037927936\<rparr>) (replicate 1 ?ts) = ?r"
    by (rule update_loop_idle_round [OF ts _ s1 c2]) simp_all
  have c0: "update_loop idle_step (?w\<lparr>accumulator := 6004799503160661 / 72057594037927936\<rparr>) (replicate 0 ?ts) = ?r"
    by (rule update_loop_idle_round [OF ts _ s0 c1]) simp_all
  have s: "binary64 (6004799503160661 / 72057594037927936) = 6004799503160661 / 72057594037927936"
    by (rule binary64_eval [where e = "-4" and m = 6004799503160661]) (simp_all add: pow2_def)
  show ?thesis
    using c0 by (simp add: update_def PhysicsWorld_new_60(2) s)
qed

lemma update_twelfth_second_floor:
  "\<lfloor>(accumulator (PhysicsWorld_new 60) + 6004799503160661 / 72057594037927936) / fixedTimeStep (PhysicsWorld_new 60)\<rfloor> = 4"
  by (simp add: PhysicsWorld_new_60)




text \<open>
  The conditions on the world are kept from frame to frame: after any sequence of frames,
  none longer than \<open>2 ^ 23\<close> timesteps, the accumulator is again a non-negative number
  that does not exceed the timestep, and every call has returned.
\<close>

lemma updates_accumulator_range:
  assumes "pow2 (- 1000) \<le> fixedTimeStep w" and "fixedTimeStep w \<le> pow2 1000"
    and "0 \<le> accumulator w" and "accumulator w \<le> fixedTimeStep w"
    and "\<forall>dt \<in> set dts. 0 \<le> dt \<and> dt \<le> 2 ^ 23 * fixedTimeStep w"
  shows "\<exists>w'. updates step dts w = Some w' \<and> fixedTimeStep w' = fixedTimeStep w \<and>
              0 \<le> accumulator w' \<and> accumulator w' \<le> fixedTimeStep w"
  using assms
proof (induction dts arbitrary: w)
  case Nil
  then show ?case by simp
next
  case (Cons dt dts)
  from Cons.prems have dt: "0 \<le> dt" "dt \<le> 8388608 * fixedTimeStep w" by simp_all
  have "0 < fixedTimeStep w" using Cons.prems(1) pow2_pos [of "- 1000"] by linarith
  then have "accumulator w + dt \<le> 16777216 * fixedTimeStep w"
    using dt Cons.prems(4) by linarith
  then have "accumulator w + dt \<le> 2 ^ 24 * fixedTimeStep w" by simp
  from update_run [OF Cons.prems(1,2,3) dt(1) this, of step]
  obtain w1 calls where u: "update step dt w = Some (w1, calls)"
    and k: "fixedTimeStep w1 = fixedTimeStep w" "0 \<le> accumulator w1"
      "accumulator w1 < fixedTimeStep w"
    by blast
  from Cons.IH [of w1] k Cons.prems
  obtain w' where "updates step dts w1 = Some w'" "fixedTimeStep w' = fixedTimeStep w"
    "0 \<le> accumulator w'" "accumulator w' \<le> fixedTimeStep w"
    by auto
  then show ?case using u by simp
qed

section \<open>Collision resolution\<close>

lemma updatePosition_fields [simp]:
  "velocity (updatePosition q b) = velocity b"
  "position (updatePosition q b) = position b"
  by (simp_all add: updatePosition_def split: option.splits)

lemma resolveWithInfo_separating:
  "0 < dot (sub (velocity bodyA) (velocity bodyB)) (normal c) \<Longrightarrow>
   resolveWithInfo pl c bodyA bodyB = (bodyA, bodyB)"
  by (simp add: resolveWithInfo_def)

lemma resolveWithInfo_velocity:
  assumes "\<not> 0 < dot (sub (velocity bodyA) (velocity bodyB)) (normal c)"
      and "invMass bodyA + invMass bodyB \<noteq> 0"
      and "0 \<le> invMass bodyA" "0 \<le> invMass bodyB"
  shows "velocity (fst (resolveWithInfo pl c bodyA bodyB)) =
           add (velocity bodyA) (multiplyScalar (normal c)
             (- (1 + min (restitution bodyA) (restitution bodyB)) *
                dot (sub (velocity bodyA) (velocity bodyB)) (normal c) /
                (invMass bodyA + invMass bodyB) * invMass bodyA))"
    and "velocity (snd (resolveWithInfo pl c bodyA bodyB)) =
           sub (velocity bodyB) (multiplyScalar (normal c)
             (- (1 + min (restitution bodyA) (restitution bodyB)) *
                dot (sub (velocity bodyA) (velocity bodyB)) (normal c) /
                (invMass bodyA + invMass bodyB) * invMass bodyB))"
  using assms
  by (auto simp add: resolveWithInfo_def Let_def vec3_eq_iff add_def sub_def multiplyScalar_def)

lemma resolveWithInfo_static:
  "invMass bodyA = 0 \<Longrightarrow>
     velocity (fst (resolveWithInfo pl c bodyA bodyB)) = velocity bodyA \<and>
     position (fst (resolveWithInfo pl c bodyA bodyB)) = position bodyA"
  "invMass bodyB = 0 \<Longrightarrow>
     velocity (snd (resolveWithInfo pl c bodyA bodyB)) = velocity bodyB \<and>
     position (snd (resolveWithInfo pl c bodyA bodyB)) = position bodyB"
  "invMass bodyA + invMass bodyB = 0 \<Longrightarrow> resolveWithInfo pl c bodyA bodyB = (bodyA, bodyB)"
  by (simp_all add: resolveWithInfo_def Let_def)

lemma resolveSphere_static:
  "invMass bodyA = 0 \<Longrightarrow>
     velocity (fst (resolveSphere pl bodyA bodyB)) = velocity bodyA \<and>
     position (fst (resolveSphere pl bodyA bodyB)) = position bodyA"
  "invMass bodyB = 0 \<Longrightarrow>
     velocity (snd (resolveSphere pl bodyA bodyB)) = velocity bodyB \<and>
     position (snd (resolveSphere pl bodyA bodyB)) = position bodyB"
  "invMass bodyA + invMass bodyB = 0 \<Longrightarrow> resolveSphere pl bodyA bodyB = (bodyA, bodyB)"
  by (simp_all add: resolveSphere_def Let_def)

text \<open>
  Claim C1. Let the resolver have contact information \<open>c\<close> for the pair (from body A, or
  from body B with the normal negated), and let both inverse masses be non-negative, as
  the data model of a body has them (0 or \<open>1 / mass\<close>). Write
  \<open>vRel = dot (vA - vB) normal\<close>. If \<open>vRel > 0\<close> the call returns both bodies exactly as
  they were. If \<open>vRel \<le> 0\<close> and \<open>invMassA + invMassB > 0\<close>, the velocities after the call are
  \<open>vA + (j * invMassA) * normal\<close> and \<open>vB - (j * invMassB) * normal\<close> with
  \<open>j = - (1 + min restitutionA restitutionB) * vRel / (invMassA + invMassB)\<close>.
\<close>

theorem resolveCollision_impulse:
  assumes "getCollisionInfo infoA infoB = Some c"
      and "0 \<le> invMass bodyA" and "0 \<le> invMass bodyB"
  shows "(0 < dot (sub (velocity bodyA) (velocity bodyB)) (normal c) \<longrightarrow>
            resolveCollision pl infoA infoB bodyA bodyB = (bodyA, bodyB)) \<and>
         (dot (sub (velocity bodyA) (velocity bodyB)) (normal c) \<le> 0 \<and>
          0 < invMass bodyA + invMass bodyB \<longrightarrow>
            velocity (fst (resolveCollision pl infoA infoB bodyA bodyB)) =
              add (velocity bodyA) (multiplyScalar (normal c)
                (- (1 + min (restitution bodyA) (restitution bodyB)) *
                   dot (sub (velocity bodyA) (velocity bodyB)) (normal c) /
                   (invMass bodyA + invMass bodyB) * invMass bodyA)) \<and>
            velocity (snd (resolveCollision pl infoA infoB bodyA bodyB)) =
              sub (velocity bodyB) (multiplyScalar (normal c)
                (- (1 + min (restitution bodyA) (restitution bodyB)) *
                   dot (sub (velocity bodyA) (velocity bodyB)) (normal c) /
                   (invMass bodyA + invMass bodyB) * invMass bodyB)))"
proof (intro conjI impI)
  assume "0 < dot (sub (velocity bodyA) (velocity bodyB)) (normal c)"
  then show "resolveCollision pl infoA infoB bodyA bodyB = (bodyA, bodyB)"
    using assms(1) by (simp add: resolveCollision_def resolveWithInfo_separating)
next
  assume h: "dot (sub (velocity bodyA) (velocity bodyB)) (normal c) \<le> 0 \<and>
          0 < invMass bodyA + invMass bodyB"
  then have n: "\<not> 0 < dot (sub (velocity bodyA) (velocity bodyB)) (normal c)"
    and m: "invMass bodyA + invMass bodyB \<noteq> 0"
    by simp_all
  have r: "resolveCollision pl infoA infoB bodyA bodyB = resolveWithInfo pl c bodyA bodyB"
    using assms(1) by (simp add: resolveCollision_def)
  show "velocity (fst (resolveCollision pl infoA infoB bodyA bodyB)) =
              add (velocity bodyA) (multiplyScalar (normal c)
                (- (1 + min (restitution bodyA) (restitution bodyB)) *
                   dot (sub (velocity bodyA) (velocity bodyB)) (normal c) /
                   (invMass bodyA + invMass bodyB) * invMass bodyA))"
    unfolding r by (rule resolveWithInfo_velocity(1) [OF n m assms(2) assms(3)])
  show "velocity (snd (resolveCollision pl infoA infoB bodyA bodyB)) =
              sub (velocity bodyB) (multiplyScalar (normal c)
                (- (1 + min (restitution bodyA) (restitution bodyB)) *
                   dot (sub (velocity bodyA) (velocity bodyB)) (normal c) /
                   (invMass bodyA + invMass bodyB) * invMass bodyB))"
    unfolding r by (rule resolveWithInfo_velocity(2) [OF n m assms(2) assms(3)])
qed

text \<open>
  Two balls of mass 1 and restitution 1 meeting head-on along the normal exchange their
  velocities; the same pair in the other order is separating and is left alone.
\<close>

theorem resolveCollision_impulse_witness:
  "getCollisionInfo (Some contact_x) None = Some contact_x \<and>
   0 \<le> invMass ball_left \<and> 0 \<le> invMass ball_right \<and>
   dot (sub (velocity ball_left) (velocity ball_right)) (normal contact_x) \<le> 0 \<and>
   0 < invMass ball_left + invMass ball_right \<and>
   velocity (fst (resolveCollision False (Some contact_x) None ball_left ball_right)) =
     Vector3 1 0 0 \<and>
   velocity (snd (resolveCollision False (Some contact_x) None ball_left ball_right)) =
     Vector3 (- 1) 0 0 \<and>
   0 < dot (sub (velocity ball_right) (velocity ball_left)) (normal contact_x) \<and>
   resolveCollision False (Some contact_x) None ball_right ball_left = (ball_right, ball_left)"
proof -
  have i: "getCollisionInfo (Some contact_x) None = Some contact_x"
    by (simp add: getCollisionInfo_def)
  have a: "0 \<le> invMass ball_left" and b: "0 \<le> invMass ball_right"
    by (simp_all add: ball_left_def ball_right_def)
  have v: "dot (sub (velocity ball_left) (velocity ball_right)) (normal contact_x) = - 2"
    "dot (sub (velocity ball_right) (velocity ball_left)) (normal contact_x) = 2"
    by (simp_all add: ball_left_def ball_right_def contact_x_def dot_def sub_def)
  have s: "invMass ball_left + invMass ball_right = 2" "invMass ball_left = 1"
    "invMass ball_right = 1" "restitution ball_left = 1" "restitution ball_right = 1"
    by (simp_all add: ball_left_def ball_right_def)
  show ?thesis
    using resolveCollision_impulse [OF i a b, where pl = False]
          resolveCollision_impulse [OF i b a, where pl = False]
    by (simp add: i v s)
       (simp add: ball_left_def ball_right_def contact_x_def vec3_eq_iff add_def sub_def
          multiplyScalar_def)
qed

text \<open>
  Claim C8. Whatever contact information there is (so on the path with explicit contact
  information and on the sphere fallback): a body with inverse mass 0 leaves
  \<open>resolveCollision\<close> with the velocity and the position it had, and when the two inverse
  masses add up to 0 the call returns both bodies unchanged in every field.
\<close>

theorem resolveCollision_zero_invMass:
  "(invMass bodyA = 0 \<longrightarrow>
      velocity (fst (resolveCollision pl infoA infoB bodyA bodyB)) = velocity bodyA \<and>
      position (fst (resolveCollision pl infoA infoB bodyA bodyB)) = position bodyA) \<and>
   (invMass bodyB = 0 \<longrightarrow>
      velocity (snd (resolveCollision pl infoA infoB bodyA bodyB)) = velocity bodyB \<and>
      position (snd (resolveCollision pl infoA infoB bodyA bodyB)) = position bodyB) \<and>
   (invMass bodyA + invMass bodyB = 0 \<longrightarrow>
      resolveCollision pl infoA infoB bodyA bodyB = (bodyA, bodyB))"
  by (cases "getCollisionInfo infoA infoB")
     (simp_all add: resolveCollision_def resolveWithInfo_static resolveSphere_static)

text \<open>
  A ball running into a wall, with contact information and without: the wall is not
  moved. Two walls: nothing happens.
\<close>

theorem resolveCollision_zero_invMass_witness:
  "invMass wall = 0 \<and>
   velocity (snd (resolveCollision False (Some contact_x) None ball_left wall)) = velocity wall \<and>
   position (snd (resolveCollision False (Some contact_x) None ball_left wall)) = position wall \<and>
   velocity (snd (resolveCollision False None None ball_left wall)) = velocity wall \<and>
   position (snd (resolveCollision False None None ball_left wall)) = position wall \<and>
   velocity (fst (resolveCollision False None None wall ball_left)) = velocity wall \<and>
   position (fst (resolveCollision False None None wall ball_left)) = position wall \<and>
   invMass wall + invMass wall = 0 \<and>
   resolveCollision False None None wall wall = (wall, wall) \<and>
   resolveCollision False (Some contact_x) None wall wall = (wall, wall)"
  using resolveCollision_zero_invMass [where bodyA = ball_left and bodyB = wall and pl = False
            and infoA = "Some contact_x" and infoB = None]
        resolveCollision_zero_invMass [where bodyA = ball_left and bodyB = wall and pl = False
            and infoA = "None" and infoB = None]
        resolveCollision_zero_invMass [where bodyA = wall and bodyB = ball_left and pl = False
            and infoA = "None" and infoB = None]
        resolveCollision_zero_invMass [where bodyA = wall and bodyB = wall and pl = False
            and infoA = "None" and infoB = None]
        resolveCollision_zero_invMass [where bodyA = wall and bodyB = wall and pl = False
            and infoA = "Some contact_x" and infoB = None]
  by (simp add: wall_def)

section \<open>The movement controller leaves the jump state alone\<close>

lemma prepareMove_fields [simp]:
  "physicsBody (prepareMove t p) = physicsBody p"
  "jumpCount (prepareMove t p) = jumpCount p"
  "maxJumps (prepareMove t p) = maxJumps p"
  "jumpRequested (prepareMove t p) = jumpRequested p"
  "jumpBufferTime (prepareMove t p) = jumpBufferTime p"
  "lastJumpTime (prepareMove t p) = lastJumpTime p"
  "lastGroundedTime (prepareMove t p) = lastGroundedTime p"
  "player_onGround (prepareMove t p) = player_onGround p"
  "isDead (prepareMove t p) = isDead p"
  "isJumping (prepareMove t p) = isJumping p"
  "isSprinting (prepareMove t p) = isSprinting p"
  "moveInput (prepareMove t p) = moveInput p"
  by (simp_all add: prepareMove_def calculateMoveDirection_def Let_def)

lemma applyAcceleration_fields [simp]:
  "jumpCount (applyAccelerationWithMomentum dt p) = jumpCount p"
  "maxJumps (applyAccelerationWithMomentum dt p) = maxJumps p"
  "jumpRequested (applyAccelerationWithMomentum dt p) = jumpRequested p"
  "jumpBufferTime (applyAccelerationWithMomentum dt p) = jumpBufferTime p"
  "lastJumpTime (applyAccelerationWithMomentum dt p) = lastJumpTime p"
  "lastGroundedTime (applyAccelerationWithMomentum dt p) = lastGroundedTime p"
  "player_onGround (applyAccelerationWithMomentum dt p) = player_onGround p"
  "isDead (applyAccelerationWithMomentum dt p) = isDead p"
  "movement (applyAccelerationWithMomentum dt p) = movement p"
  "vec_y (velocity (physicsBody (applyAccelerationWithMomentum dt p))) =
     vec_y (velocity (physicsBody p))"
  "position (physicsBody (applyAccelerationWithMomentum dt p)) = position (physicsBody p)"
  "onGround (physicsBody (applyAccelerationWithMomentum dt p)) = onGround (physicsBody p)"
  by (simp_all add: applyAccelerationWithMomentum_def Let_def)

lemma applyStopForce_fields [simp]:
  "jumpCount (applyStopForce dt p) = jumpCount p"
  "maxJumps (applyStopForce dt p) = maxJumps p"
  "jumpRequested (applyStopForce dt p) = jumpRequested p"
  "jumpBufferTime (applyStopForce dt p) = jumpBufferTime p"
  "lastJumpTime (applyStopForce dt p) = lastJumpTime p"
  "lastGroundedTime (applyStopForce dt p) = lastGroundedTime p"
  "player_onGround (applyStopForce dt p) = player_onGround p"
  "isDead (applyStopForce dt p) = isDead p"
  "movement (applyStopForce dt p) = movement p"
  "vec_y (velocity (physicsBody (applyStopForce dt p))) = vec_y (velocity (physicsBody p))"
  "position (physicsBody (applyStopForce dt p)) = position (physicsBody p)"
  "onGround (physicsBody (applyStopForce dt p)) = onGround (physicsBody p)"
  by (simp_all add: applyStopForce_def Let_def)

text \<open>
  \<open>Movement.update\<close> writes the x and z components of the body's velocity and nothing
  else of the body that the physics world reads: not the vertical velocity, not the
  position, not the ground flag. Nor does it touch the jump state of the player.
\<close>

lemma Movement_update_fields [simp]:
  "jumpCount (Movement_update dt t p) = jumpCount p"
  "maxJumps (Movement_update dt t p) = maxJumps p"
  "jumpRequested (Movement_update dt t p) = jumpRequested p"
  "jumpBufferTime (Movement_update dt t p) = jumpBufferTime p"
  "lastJumpTime (Movement_update dt t p) = lastJumpTime p"
  "lastGroundedTime (Movement_update dt t p) = lastGroundedTime p"
  "player_onGround (Movement_update dt t p) = player_onGround p"
  "isDead (Movement_update dt t p) = isDead p"
  "vec_y (velocity (physicsBody (Movement_update dt t p))) = vec_y (velocity (physicsBody p))"
  "position (physicsBody (Movement_update dt t p)) = position (physicsBody p)"
  "onGround (physicsBody (Movement_update dt t p)) = onGround (physicsBody p)"
  by (simp_all add: Movement_update_def Let_def)

section \<open>Jumping\<close>

lemma observeGround_fields [simp]:
  "maxJumps (observeGround now p) = maxJumps p"
  "jumpRequested (observeGround now p) = jumpRequested p"
  "jumpBufferTime (observeGround now p) = jumpBufferTime p"
  "lastJumpTime (observeGround now p) = lastJumpTime p"
  "isDead (observeGround now p) = isDead p"
  "physicsBody (observeGround now p) = physicsBody p"
  "player_onGround (observeGround now p) = onGround (physicsBody p)"
  "jumpCount (observeGround now p) =
     (if onGround (physicsBody p) \<and> \<not> player_onGround p then 0 else jumpCount p)"
  "lastGroundedTime (observeGround now p) =
     (if \<not> onGround (physicsBody p) \<and> player_onGround p then now else lastGroundedTime p)"
  by (simp_all add: observeGround_def Let_def)

lemma jumpConditions_observe: "jumpConditions now t p = jumpReady t (observeGround now p)"
  by (simp add: jumpConditions_def jumpReady_def Let_def)

lemma processJump_ready:
  "jumpReady t q \<Longrightarrow> fst (processJump t q) \<and>
     jumpCount (snd (processJump t q)) = jumpCount q + 1 \<and>
     lastJumpTime (snd (processJump t q)) = t \<and>
     lastGroundedTime (snd (processJump t q)) = lastGroundedTime q \<and>
     player_onGround (snd (processJump t q)) = player_onGround q \<and>
     isDead (snd (processJump t q)) = isDead q \<and>
     jumpRequested (snd (processJump t q)) = jumpRequested q \<and>
     jumpBufferTime (snd (processJump t q)) = jumpBufferTime q \<and>
     maxJumps (snd (processJump t q)) = maxJumps q \<and>
     onGround (physicsBody (snd (processJump t q))) = onGround (physicsBody q) \<and>
     vec_y (velocity (physicsBody (snd (processJump t q)))) =
       (if player_onGround q \<or> t - lastGroundedTime q < 150 then jumpForce else jumpForce * 0.9)"
  by (auto simp add: jumpReady_def processJump_def Let_def coyoteTime_def applyJumpBoost_def)

lemma processJump_not_ready: "\<not> jumpReady t q \<Longrightarrow> processJump t q = (False, q)"
  by (auto simp add: jumpReady_def processJump_def Let_def coyoteTime_def)

lemma jumpPhase_fst:
  "fst (jumpPhase now t q) \<longleftrightarrow>
     jumpRequested q \<and> now - jumpBufferTime q < 200 \<and> jumpReady t q"
proof (cases "jumpReady t q")
  case True
  then show ?thesis using processJump_ready [OF True]
    by (simp add: jumpPhase_def jumpBufferWindow_def Let_def)
next
  case False
  then show ?thesis using processJump_not_ready [OF False]
    by (simp add: jumpPhase_def jumpBufferWindow_def Let_def)
qed

lemma jumpPhase_fields:
  "jumpCount (snd (jumpPhase now t q)) = jumpCount q + (if fst (jumpPhase now t q) then 1 else 0) \<and>
   lastJumpTime (snd (jumpPhase now t q)) = (if fst (jumpPhase now t q) then t else lastJumpTime q) \<and>
   jumpRequested (snd (jumpPhase now t q)) =
     (jumpRequested q \<and> now - jumpBufferTime q < 200 \<and> \<not> jumpReady t q) \<and>
   jumpBufferTime (snd (jumpPhase now t q)) = jumpBufferTime q \<and>
   maxJumps (snd (jumpPhase now t q)) = maxJumps q \<and>
   lastGroundedTime (snd (jumpPhase now t q)) = lastGroundedTime q \<and>
   player_onGround (snd (jumpPhase now t q)) = player_onGround q \<and>
   isDead (snd (jumpPhase now t q)) = isDead q \<and>
   onGround (physicsBody (snd (jumpPhase now t q))) = onGround (physicsBody q) \<and>
   vec_y (velocity (physicsBody (snd (jumpPhase now t q)))) =
     (if fst (jumpPhase now t q)
      then (if player_onGround q \<or> t - lastGroundedTime q < 150 then jumpForce else jumpForce * 0.9)
      else vec_y (velocity (physicsBody q)))"
proof (cases "jumpReady t q")
  case True
  then show ?thesis using processJump_ready [OF True]
    by (simp add: jumpPhase_def jumpBufferWindow_def Let_def)
next
  case False
  then show ?thesis using processJump_not_ready [OF False]
    by (simp add: jumpPhase_def jumpBufferWindow_def Let_def)
qed

lemma Player_update_full_dead: "isDead p \<Longrightarrow> Player_update_full dt now t tm p = (False, p)"
  by (simp add: Player_update_full_def)

lemma Player_update_jumped:
  "fst (Player_update_full dt now t tm p) \<longleftrightarrow>
     \<not> isDead p \<and> jumpRequested p \<and> now - jumpBufferTime p < 200 \<and> jumpConditions now t p"
  by (simp add: Player_update_full_def Let_def jumpPhase_fst jumpConditions_observe)

lemma Player_update_alive:
  assumes "\<not> isDead p"
  shows "jumpCount (Player_update dt now t tm p) =
           (if onGround (physicsBody p) \<and> \<not> player_onGround p then 0 else jumpCount p) +
           (if fst (Player_update_full dt now t tm p) then 1 else 0) \<and>
         lastJumpTime (Player_update dt now t tm p) =
           (if fst (Player_update_full dt now t tm p) then t else lastJumpTime p) \<and>
         jumpRequested (Player_update dt now t tm p) =
           (jumpRequested p \<and> now - jumpBufferTime p < 200 \<and> \<not> jumpConditions now t p) \<and>
         jumpBufferTime (Player_update dt now t tm p) = jumpBufferTime p \<and>
         maxJumps (Player_update dt now t tm p) = maxJumps p \<and>
         lastGroundedTime (Player_update dt now t tm p) =
           (if \<not> onGround (physicsBody p) \<and> player_onGround p then now else lastGroundedTime p) \<and>
         player_onGround (Player_update dt now t tm p) = onGround (physicsBody p) \<and>
         isDead (Player_update dt now t tm p) = isDead p \<and>
         onGround (physicsBody (Player_update dt now t tm p)) = onGround (physicsBody p) \<and>
         vec_y (velocity (physicsBody (Player_update dt now t tm p))) =
           (if fst (Player_update_full dt now t tm p)
            then (if onGround (physicsBody p) \<or>
                     t - (if \<not> onGround (physicsBody p) \<and> player_onGround p then now
                          else lastGroundedTime p) < 150
                  then jumpForce else jumpForce * 0.9)
            else vec_y (velocity (physicsBody p)))"
  using assms jumpPhase_fields [of now t "observeGround now p"]
  by (simp add: Player_update_def Player_update_full_def Let_def jumpPhase_fst
        jumpConditions_observe)

lemma other_events_jump_fields:
  assumes "\<forall>dt now t tm. e \<noteq> Update dt now t tm"
  shows "jumpCount (apply_event e p) = jumpCount p"
    and "maxJumps (apply_event e p) = maxJumps p"
    and "lastJumpTime (apply_event e p) = lastJumpTime p"
    and "(\<forall>now. e \<noteq> KeyDown Space now) \<Longrightarrow>
           jumpRequested (apply_event e p) = jumpRequested p \<and>
           jumpBufferTime (apply_event e p) = jumpBufferTime p"
  using assms
  by (cases e; simp add: onKeyDown_def onKeyUp_def rotate_def takeDamage_def die_def heal_def
        respawn_def Let_def split: key.splits)+

lemma Player_update_requested:
  "jumpRequested (Player_update dt now t tm p) \<Longrightarrow> jumpRequested p"
  using Player_update_alive [of p dt now t tm]
  by (cases "isDead p") (simp_all add: Player_update_def Player_update_full_dead)

lemma no_request_no_jump:
  "\<not> jumpRequested p \<Longrightarrow> \<forall>e \<in> set es. \<forall>now. e \<noteq> KeyDown Space now \<Longrightarrow>
   True \<notin> set (jumps es p)"
proof (induction es arbitrary: p)
  case Nil
  then show ?case by simp
next
  case (Cons e es)
  show ?case
  proof (cases "\<exists>dt now t tm. e = Update dt now t tm")
    case True
    then obtain dt now t tm where e: "e = Update dt now t tm" by blast
    have "\<not> jumpRequested (Player_update dt now t tm p)"
      using Cons.prems(1) Player_update_requested by blast
    then have "True \<notin> set (jumps es (Player_update dt now t tm p))"
      using Cons.IH Cons.prems(2) by simp
    then show ?thesis
      using Cons.prems(1) by (simp add: e Player_update_jumped)
  next
    case False
    then have ne: "\<forall>dt now t tm. e \<noteq> Update dt now t tm" by blast
    have "\<forall>now. e \<noteq> KeyDown Space now" using Cons.prems(2) by simp
    then have "\<not> jumpRequested (apply_event e p)"
      using other_events_jump_fields(4) [OF ne] Cons.prems(1) by simp
    then have "True \<notin> set (jumps es (apply_event e p))"
      using Cons.IH Cons.prems(2) by simp
    moreover have "jumps (e # es) p = jumps es (apply_event e p)"
      using ne by (cases e) simp_all
    ultimately show ?thesis by simp
  qed
qed

lemma waits_other:
  assumes "\<forall>dt now t tm. e \<noteq> Update dt now t tm" and "waits t0 (e # es) p"
  shows "(\<forall>now. e \<noteq> KeyDown Space now) \<and> waits t0 es (apply_event e p)"
proof (cases e)
  case (KeyDown k t')
  with assms show ?thesis by (cases k) simp_all
next
  case (Update dt now t tm)
  with assms show ?thesis by simp
qed (insert assms, simp_all)

lemma waits_pending:
  "jumpRequested p \<Longrightarrow> waits (jumpBufferTime p) es p \<Longrightarrow>
   jumpRequested (run es p) \<and> jumpBufferTime (run es p) = jumpBufferTime p \<and>
   True \<notin> set (jumps es p)"
proof (induction es arbitrary: p)
  case Nil
  then show ?case by simp
next
  case (Cons e es)
  show ?case
  proof (cases "\<exists>dt now t tm. e = Update dt now t tm")
    case True
    then obtain dt now t tm where e: "e = Update dt now t tm" by blast
    let ?p' = "Player_update dt now t tm p"
    from Cons.prems(2) have w: "isDead p \<or> (now - jumpBufferTime p < 200 \<and> \<not> jumpConditions now t p)"
      and w': "waits (jumpBufferTime p) es ?p'"
      by (simp_all add: e)
    have k: "jumpRequested ?p' \<and> jumpBufferTime ?p' = jumpBufferTime p \<and>
             \<not> fst (Player_update_full dt now t tm p)"
    proof (cases "isDead p")
      case True
      then show ?thesis using Cons.prems(1)
        by (simp add: Player_update_def Player_update_full_dead)
    next
      case False
      then show ?thesis
        using w Cons.prems(1) Player_update_alive [OF False, of dt now t tm]
        by (simp add: Player_update_jumped)
    qed
    then have "waits (jumpBufferTime ?p') es ?p'" using w' by simp
    from Cons.IH [OF _ this] k show ?thesis by (simp add: e)
  next
    case False
    then have ne: "\<forall>dt now t tm. e \<noteq> Update dt now t tm" by blast
    from waits_other [OF ne Cons.prems(2)]
    have ns: "\<forall>now. e \<noteq> KeyDown Space now"
      and w': "waits (jumpBufferTime p) es (apply_event e p)"
      by simp_all
    have k: "jumpRequested (apply_event e p) \<and> jumpBufferTime (apply_event e p) = jumpBufferTime p"
      using other_events_jump_fields(4) [OF ne ns] Cons.prems(1) by simp
    then have "waits (jumpBufferTime (apply_event e p)) es (apply_event e p)" using w' by simp
    from Cons.IH [OF _ this] k
    have "jumpRequested (run es (apply_event e p)) \<and>
          jumpBufferTime (run es (apply_event e p)) = jumpBufferTime p \<and>
          True \<notin> set (jumps es (apply_event e p))" by simp
    moreover have "jumps (e # es) p = jumps es (apply_event e p)"
      using ne by (cases e) simp_all
    ultimately show ?thesis by simp
  qed
qed


lemma jump_invariant_event:
  assumes "1 \<le> maxJumps p" "jumpCount p \<le> maxJumps p"
  shows "1 \<le> maxJumps (apply_event e p) \<and>
         jumpCount (apply_event e p) \<le> maxJumps (apply_event e p)"
proof (cases "\<exists>dt now t tm. e = Update dt now t tm")
  case True
  then obtain dt now t tm where e: "e = Update dt now t tm" by blast
  show ?thesis
  proof (cases "isDead p")
    case True
    then show ?thesis using assms by (simp add: e Player_update_def Player_update_full_dead)
  next
    case False
    from Player_update_alive [OF False, of dt now t tm] assms
    show ?thesis
      by (auto simp add: e Player_update_jumped jumpConditions_def Let_def split: if_splits)
  qed
next
  case False
  then have ne: "\<forall>dt now t tm. e \<noteq> Update dt now t tm" by blast
  show ?thesis using assms other_events_jump_fields(1,2) [OF ne] by simp
qed

lemma jump_invariant_run:
  "1 \<le> maxJumps p \<Longrightarrow> jumpCount p \<le> maxJumps p \<Longrightarrow>
   1 \<le> maxJumps (run es p) \<and> jumpCount (run es p) \<le> maxJumps (run es p)"
proof (induction es arbitrary: p)
  case Nil
  then show ?case by simp
next
  case (Cons e es)
  from jump_invariant_event [OF Cons.prems, of e]
  show ?case using Cons.IH by simp
qed

lemma Player_new_invariant:
  "1 \<le> maxJumps (Player_new cj cm b0) \<and> jumpCount (Player_new cj cm b0) = 0"
  by (simp add: Player_new_def split: option.splits)

subsection \<open>The example players\<close>

lemma fresh_player_view:
  "isDead (fresh_player) = False \<and> player_onGround (fresh_player) = False \<and>
     onGround (physicsBody (fresh_player)) = False \<and> jumpCount (fresh_player) = 0 \<and>
     maxJumps (fresh_player) = 2 \<and> lastJumpTime (fresh_player) = 0 \<and>
     lastGroundedTime (fresh_player) = 0 \<and> jumpRequested (fresh_player) = False \<and>
     jumpBufferTime (fresh_player) = 0"
  by (simp add: fresh_player_def Player_new_def airborne_body_def)

lemma grounded_player_view:
  "isDead (grounded_player) = False \<and> player_onGround (grounded_player) = True \<and>
     onGround (physicsBody (grounded_player)) = True \<and> jumpCount (grounded_player) = 0 \<and>
     maxJumps (grounded_player) = 2 \<and> lastJumpTime (grounded_player) = 0 \<and>
     lastGroundedTime (grounded_player) = 0 \<and> jumpRequested (grounded_player) = True \<and>
     jumpBufferTime (grounded_player) = 1000"
proof -
  let ?p1 = "apply_event (Physics resting_body) fresh_player"
  let ?p2 = "apply_event (Update (1 / 60) 1000 1000 1000) ?p1"
  let ?p3 = "apply_event (KeyDown Space 1000) ?p2"
  have v1: "isDead (?p1) = False \<and> player_onGround (?p1) = False \<and>
     onGround (physicsBody (?p1)) = True \<and> jumpCount (?p1) = 0 \<and>
     maxJumps (?p1) = 2 \<and> lastJumpTime (?p1) = 0 \<and>
     lastGroundedTime (?p1) = 0 \<and> jumpRequested (?p1) = False \<and>
     jumpBufferTime (?p1) = 0"
    using fresh_player_view by (simp add: resting_body_def)
  then have d1: "\<not> isDead ?p1" by simp
  have v2: "isDead (?p2) = False \<and> player_onGround (?p2) = True \<and>
     onGround (physicsBody (?p2)) = True \<and> jumpCount (?p2) = 0 \<and>
     maxJumps (?p2) = 2 \<and> lastJumpTime (?p2) = 0 \<and>
     lastGroundedTime (?p2) = 0 \<and> jumpRequested (?p2) = False \<and>
     jumpBufferTime (?p2) = 0"
    using v1 Player_update_alive [OF d1, of "1 / 60" 1000 1000 1000]
    by (simp add: Player_update_jumped)
  have v3: "isDead (?p3) = False \<and> player_onGround (?p3) = True \<and>
     onGround (physicsBody (?p3)) = True \<and> jumpCount (?p3) = 0 \<and>
     maxJumps (?p3) = 2 \<and> lastJumpTime (?p3) = 0 \<and>
     lastGroundedTime (?p3) = 0 \<and> jumpRequested (?p3) = True \<and>
     jumpBufferTime (?p3) = 1000"
    using v2 by (simp add: onKeyDown_def)
  have "grounded_player = ?p3" by (simp add: grounded_player_def)
  then show ?thesis using v3 by simp
qed

lemma coyote_player_view:
  "isDead (coyote_player) = False \<and> player_onGround (coyote_player) = False \<and>
     onGround (physicsBody (coyote_player)) = False \<and> jumpCount (coyote_player) = 1 \<and>
     maxJumps (coyote_player) = 2 \<and> lastJumpTime (coyote_player) = 1010 \<and>
     lastGroundedTime (coyote_player) = 1030 \<and> jumpRequested (coyote_player) = True \<and>
     jumpBufferTime (coyote_player) = 1100"
proof -
  let ?p1 = "apply_event (Update (1 / 60) 1010 1010 1010) grounded_player"
  let ?p2 = "apply_event (Physics airborne_body) ?p1"
  let ?p3 = "apply_event (Update (1 / 60) 1030 1030 1030) ?p2"
  let ?p4 = "apply_event (KeyDown Space 1100) ?p3"
  have d0: "\<not> isDead grounded_player" using grounded_player_view by simp
  have v1: "isDead (?p1) = False \<and> player_onGround (?p1) = True \<and>
     onGround (physicsBody (?p1)) = True \<and> jumpCount (?p1) = 1 \<and>
     maxJumps (?p1) = 2 \<and> lastJumpTime (?p1) = 1010 \<and>
     lastGroundedTime (?p1) = 0 \<and> jumpRequested (?p1) = False \<and>
     jumpBufferTime (?p1) = 1000"
    using grounded_player_view Player_update_alive [OF d0, of "1 / 60" 1010 1010 1010]
    by (simp add: Player_update_jumped jumpConditions_def)
  have v2: "isDead (?p2) = False \<and> player_onGround (?p2) = True \<and>
     onGround (physicsBody (?p2)) = False \<and> jumpCount (?p2) = 1 \<and>
     maxJumps (?p2) = 2 \<and> lastJumpTime (?p2) = 1010 \<and>
     lastGroundedTime (?p2) = 0 \<and> jumpRequested (?p2) = False \<and>
     jumpBufferTime (?p2) = 1000"
    using v1 by (simp add: airborne_body_def)
  then have d2: "\<not> isDead ?p2" by simp
  have v3: "isDead (?p3) = False \<and> player_onGround (?p3) = False \<and>
     onGround (physicsBody (?p3)) = False \<and> jumpCount (?p3) = 1 \<and>
     maxJumps (?p3) = 2 \<and> lastJumpTime (?p3) = 1010 \<and>
     lastGroundedTime (?p3) = 1030 \<and> jumpRequested (?p3) = False \<and>
     jumpBufferTime (?p3) = 1000"
    using v2 Player_update_alive [OF d2, of "1 / 60" 1030 1030 1030]
    by (simp add: Player_update_jumped)
  have v4: "isDead (?p4) = False \<and> player_onGround (?p4) = False \<and>
     onGround (physicsBody (?p4)) = False \<and> jumpCount (?p4) = 1 \<and>
     maxJumps (?p4) = 2 \<and> lastJumpTime (?p4) = 1010 \<and>
     lastGroundedTime (?p4) = 1030 \<and> jumpRequested (?p4) = True \<and>
     jumpBufferTime (?p4) = 1100"
    using v3 by (simp add: onKeyDown_def)
  have "coyote_player = ?p4" by (simp add: coyote_player_def)
  then show ?thesis using v4 by simp
qed

lemma dead_player_view:
  "isDead (dead_player) = True \<and> player_onGround (dead_player) = False \<and>
     onGround (physicsBody (dead_player)) = True \<and> jumpCount (dead_player) = 0 \<and>
     maxJumps (dead_player) = 2 \<and> lastJumpTime (dead_player) = 0 \<and>
     lastGroundedTime (dead_player) = 0 \<and> jumpRequested (dead_player) = True \<and>
     jumpBufferTime (dead_player) = 2100"
proof -
  let ?p1 = "apply_event (TakeDamage 100 2000) fresh_player"
  let ?p2 = "apply_event (Physics resting_body) ?p1"
  let ?p3 = "apply_event (KeyDown Space 2100) ?p2"
  have h: "health fresh_player = 100" "lastDamageTime fresh_player = 0"
    by (simp_all add: fresh_player_def Player_new_def)
  have v1: "isDead (?p1) = True \<and> player_onGround (?p1) = False \<and>
     onGround (physicsBody (?p1)) = False \<and> jumpCount (?p1) = 0 \<and>
     maxJumps (?p1) = 2 \<and> lastJumpTime (?p1) = 0 \<and>
     lastGroundedTime (?p1) = 0 \<and> jumpRequested (?p1) = False \<and>
     jumpBufferTime (?p1) = 0"
    using fresh_player_view h
    by (simp add: takeDamage_def die_def invulnerabilityDuration_def Let_def)
  have v2: "isDead (?p2) = True \<and> player_onGround (?p2) = False \<and>
     onGround (physicsBody (?p2)) = True \<and> jumpCount (?p2) = 0 \<and>
     maxJumps (?p2) = 2 \<and> lastJumpTime (?p2) = 0 \<and>
     lastGroundedTime (?p2) = 0 \<and> jumpRequested (?p2) = False \<and>
     jumpBufferTime (?p2) = 0"
    using v1 by (simp add: resting_body_def)
  have v3: "isDead (?p3) = True \<and> player_onGround (?p3) = False \<and>
     onGround (physicsBody (?p3)) = True \<and> jumpCount (?p3) = 0 \<and>
     maxJumps (?p3) = 2 \<and> lastJumpTime (?p3) = 0 \<and>
     lastGroundedTime (?p3) = 0 \<and> jumpRequested (?p3) = True \<and>
     jumpBufferTime (?p3) = 2100"
    using v2 by (simp add: onKeyDown_def)
  have "dead_player = ?p3" by (simp add: dead_player_def)
  then show ?thesis using v3 by simp
qed

lemma waiting_trace_view:
  "waits 1100 waiting_trace coyote_player \<and>
   isDead (run waiting_trace coyote_player) = False \<and> player_onGround (run waiting_trace coyote_player) = False \<and>
     onGround (physicsBody (run waiting_trace coyote_player)) = False \<and> jumpCount (run waiting_trace coyote_player) = 1 \<and>
     maxJumps (run waiting_trace coyote_player) = 2 \<and> lastJumpTime (run waiting_trace coyote_player) = 1010 \<and>
     lastGroundedTime (run waiting_trace coyote_player) = 1030 \<and> jumpRequested (run waiting_trace coyote_player) = True \<and>
     jumpBufferTime (run waiting_trace coyote_player) = 1100"
proof -
  let ?p1 = "apply_event (Update (1 / 60) 1120 1120 1120) coyote_player"
  let ?p2 = "apply_event (MouseMove 3 4) ?p1"
  let ?p3 = "apply_event (Update (1 / 60) 1150 1150 1150) ?p2"
  note c = coyote_player_view
  have d0: "\<not> isDead coyote_player" using c by simp
  have j0: "\<not> jumpConditions 1120 1120 coyote_player"
    using c by (simp add: jumpConditions_def)
  have v1: "isDead (?p1) = False \<and> player_onGround (?p1) = False \<and>
     onGround (physicsBody (?p1)) = False \<and> jumpCount (?p1) = 1 \<and>
     maxJumps (?p1) = 2 \<and> lastJumpTime (?p1) = 1010 \<and>
     lastGroundedTime (?p1) = 1030 \<and> jumpRequested (?p1) = True \<and>
     jumpBufferTime (?p1) = 1100"
    using c j0 Player_update_alive [OF d0, of "1 / 60" 1120 1120 1120]
    by (simp add: Player_update_jumped)
  have v2: "isDead (?p2) = False \<and> player_onGround (?p2) = False \<and>
     onGround (physicsBody (?p2)) = False \<and> jumpCount (?p2) = 1 \<and>
     maxJumps (?p2) = 2 \<and> lastJumpTime (?p2) = 1010 \<and>
     lastGroundedTime (?p2) = 1030 \<and> jumpRequested (?p2) = True \<and>
     jumpBufferTime (?p2) = 1100"
    using v1 by (simp add: rotate_def Let_def)
  then have d2: "\<not> isDead ?p2" by simp
  have j2: "\<not> jumpConditions 1150 1150 ?p2"
    using v2 by (simp add: jumpConditions_def)
  have v3: "isDead (?p3) = False \<and> player_onGround (?p3) = False \<and>
     onGround (physicsBody (?p3)) = False \<and> jumpCount (?p3) = 1 \<and>
     maxJumps (?p3) = 2 \<and> lastJumpTime (?p3) = 1010 \<and>
     lastGroundedTime (?p3) = 1030 \<and> jumpRequested (?p3) = True \<and>
     jumpBufferTime (?p3) = 1100"
    using v2 j2 Player_update_alive [OF d2, of "1 / 60" 1150 1150 1150]
    by (simp add: Player_update_jumped)
  have r: "run waiting_trace coyote_player = ?p3"
    by (simp add: waiting_trace_def)
  have w: "waits 1100 waiting_trace coyote_player"
    using j0 j2 d0 d2 by (simp add: waiting_trace_def)
  show ?thesis using w v3 unfolding r by simp
qed

subsection \<open>The buffered jump\<close>

text \<open>
  Claim C4, as stated, fails. At \<open>coyote_player\<close> (in the air with one jump made at 1010,
  having left the ground at 1030, the key pressed again at 1100) the update at 1120 is
  within the buffer window, the jump count is below the maximum and more than 100 ms
  have passed since the last jump, yet no jump is produced: within the coyote time
  only a first jump is allowed, and that needs a jump count of 0. At \<open>dead_player\<close>
  (on the ground, no jump made, the key pressed at 2100) the update at 2110 produces no
  jump either: the update of a dead player does nothing.
\<close>

theorem buffered_jump_counterexample:
  "\<not> isDead coyote_player \<and> jumpRequested coyote_player \<and>
   1120 - jumpBufferTime coyote_player < 200 \<and>
   jumpCount coyote_player < maxJumps coyote_player \<and>
   100 \<le> 1120 - lastJumpTime coyote_player \<and>
   \<not> fst (Player_update_full (1 / 60) 1120 1120 1120 coyote_player) \<and>
   jumpRequested dead_player \<and> 2110 - jumpBufferTime dead_player < 200 \<and>
   onGround (physicsBody dead_player) \<and> jumpCount dead_player = 0 \<and>
   100 \<le> 2110 - lastJumpTime dead_player \<and>
   \<not> fst (Player_update_full (1 / 60) 2110 2110 2110 dead_player)"
  using coyote_player_view dead_player_view
  by (simp add: Player_update_jumped jumpConditions_def)

text \<open>
  Claim C4, amended. Let a jump request be pending in state \<open>p\<close>, pressed at
  \<open>jumpBufferTime p\<close>, and let \<open>es\<close> be what has happened since while the request waited:
  no further press of the jump key, and every update either one of a dead player or one
  within 200 ms of the press at which the jump conditions did not hold. Then no jump has
  been produced and the request is still pending with its time. At the next update of the
  player, if it is not dead, at clock reading \<open>now\<close> (and \<open>t\<close> inside \<open>processJump\<close>): if
  \<open>now - jumpBufferTime p < 200\<close> and the jump conditions hold (at least 100 ms since the
  last jump, and either grounded or within 150 ms of leaving the ground with a jump
  count of 0, or neither of the two with a jump count below the maximum), a jump is
  produced and the request consumed; if \<open>now - jumpBufferTime p < 200\<close> and the conditions
  do not hold, no jump is produced and the request stays pending; if
  \<open>now - jumpBufferTime p \<ge> 200\<close>, the request is discarded and no jump is produced. The
  update of a dead player produces no jump and changes nothing; events other than an
  update or a press of the jump key leave the request as it is; and from a state without
  a request no run of events without such a press produces a jump.
\<close>

theorem buffered_jump:
  "(isDead p \<longrightarrow>
      \<not> fst (Player_update_full dt now t tm p) \<and> Player_update dt now t tm p = p) \<and>
   (jumpRequested p \<and> waits (jumpBufferTime p) es p \<and> \<not> isDead (run es p) \<and>
    now - jumpBufferTime p < 200 \<and> jumpConditions now t (run es p) \<longrightarrow>
      True \<notin> set (jumps es p) \<and>
      fst (Player_update_full dt now t tm (run es p)) \<and>
      \<not> jumpRequested (Player_update dt now t tm (run es p)) \<and>
      lastJumpTime (Player_update dt now t tm (run es p)) = t \<and>
      (vec_y (velocity (physicsBody (Player_update dt now t tm (run es p)))) = jumpForce \<or>
       vec_y (velocity (physicsBody (Player_update dt now t tm (run es p)))) = jumpForce * 0.9)) \<and>
   (jumpRequested p \<and> waits (jumpBufferTime p) es p \<and> \<not> isDead (run es p) \<and>
    now - jumpBufferTime p < 200 \<and> \<not> jumpConditions now t (run es p) \<longrightarrow>
      True \<notin> set (jumps es p) \<and>
      \<not> fst (Player_update_full dt now t tm (run es p)) \<and>
      jumpRequested (Player_update dt now t tm (run es p)) \<and>
      jumpBufferTime (Player_update dt now t tm (run es p)) = jumpBufferTime p \<and>
      lastJumpTime (Player_update dt now t tm (run es p)) = lastJumpTime (run es p) \<and>
      vec_y (velocity (physicsBody (Player_update dt now t tm (run es p)))) =
        vec_y (velocity (physicsBody (run es p)))) \<and>
   (jumpRequested p \<and> waits (jumpBufferTime p) es p \<and> \<not> isDead (run es p) \<and>
    200 \<le> now - jumpBufferTime p \<longrightarrow>
      True \<notin> set (jumps es p) \<and>
      \<not> fst (Player_update_full dt now t tm (run es p)) \<and>
      \<not> jumpRequested (Player_update dt now t tm (run es p)) \<and>
      lastJumpTime (Player_update dt now t tm (run es p)) = lastJumpTime (run es p) \<and>
      vec_y (velocity (physicsBody (Player_update dt now t tm (run es p)))) =
        vec_y (velocity (physicsBody (run es p)))) \<and>
   ((\<forall>dt' now' t' tm'. e \<noteq> Update dt' now' t' tm') \<and> (\<forall>t'. e \<noteq> KeyDown Space t') \<longrightarrow>
      jumpRequested (apply_event e p) = jumpRequested p \<and>
      jumpBufferTime (apply_event e p) = jumpBufferTime p) \<and>
   (\<not> jumpRequested p \<and> (\<forall>e' \<in> set es. \<forall>t'. e' \<noteq> KeyDown Space t') \<longrightarrow>
      True \<notin> set (jumps es p))"
proof -
  let ?q = "run es p"
  note j = Player_update_jumped [of dt now t tm ?q]
  have c0: "isDead p \<longrightarrow>
      \<not> fst (Player_update_full dt now t tm p) \<and> Player_update dt now t tm p = p"
    by (simp add: Player_update_def Player_update_full_dead)
  have c1: "jumpRequested p \<and> waits (jumpBufferTime p) es p \<and> \<not> isDead ?q \<and>
    now - jumpBufferTime p < 200 \<and> jumpConditions now t ?q \<longrightarrow>
      True \<notin> set (jumps es p) \<and>
      fst (Player_update_full dt now t tm ?q) \<and>
      \<not> jumpRequested (Player_update dt now t tm ?q) \<and>
      lastJumpTime (Player_update dt now t tm ?q) = t \<and>
      (vec_y (velocity (physicsBody (Player_update dt now t tm ?q))) = jumpForce \<or>
       vec_y (velocity (physicsBody (Player_update dt now t tm ?q))) = jumpForce * 0.9)"
  proof
    assume h: "jumpRequested p \<and> waits (jumpBufferTime p) es p \<and> \<not> isDead ?q \<and>
      now - jumpBufferTime p < 200 \<and> jumpConditions now t ?q"
    then have w: "jumpRequested ?q \<and> jumpBufferTime ?q = jumpBufferTime p \<and>
      True \<notin> set (jumps es p)"
      using waits_pending [of p es] by simp
    from h have d: "\<not> isDead ?q" by simp
    note a = Player_update_alive [OF d, of dt now t tm]
    have f: "fst (Player_update_full dt now t tm ?q)" using j h w by simp
    show "True \<notin> set (jumps es p) \<and>
      fst (Player_update_full dt now t tm ?q) \<and>
      \<not> jumpRequested (Player_update dt now t tm ?q) \<and>
      lastJumpTime (Player_update dt now t tm ?q) = t \<and>
      (vec_y (velocity (physicsBody (Player_update dt now t tm ?q))) = jumpForce \<or>
       vec_y (velocity (physicsBody (Player_update dt now t tm ?q))) = jumpForce * 0.9)"
      using a f h w by (simp split: if_splits)
  qed
  have c2: "jumpRequested p \<and> waits (jumpBufferTime p) es p \<and> \<not> isDead ?q \<and>
    now - jumpBufferTime p < 200 \<and> \<not> jumpConditions now t ?q \<longrightarrow>
      True \<notin> set (jumps es p) \<and>
      \<not> fst (Player_update_full dt now t tm ?q) \<and>
      jumpRequested (Player_update dt now t tm ?q) \<and>
      jumpBufferTime (Player_update dt now t tm ?q) = jumpBufferTime p \<and>
      lastJumpTime (Player_update dt now t tm ?q) = lastJumpTime ?q \<and>
      vec_y (velocity (physicsBody (Player_update dt now t tm ?q))) =
        vec_y (velocity (physicsBody ?q))"
  proof
    assume h: "jumpRequested p \<and> waits (jumpBufferTime p) es p \<and> \<not> isDead ?q \<and>
      now - jumpBufferTime p < 200 \<and> \<not> jumpConditions now t ?q"
    then have w: "jumpRequested ?q \<and> jumpBufferTime ?q = jumpBufferTime p \<and>
      True \<notin> set (jumps es p)"
      using waits_pending [of p es] by simp
    from h have d: "\<not> isDead ?q" by simp
    note a = Player_update_alive [OF d, of dt now t tm]
    have f: "\<not> fst (Player_update_full dt now t tm ?q)" using j h by simp
    show "True \<notin> set (jumps es p) \<and>
      \<not> fst (Player_update_full dt now t tm ?q) \<and>
      jumpRequested (Player_update dt now t tm ?q) \<and>
      jumpBufferTime (Player_update dt now t tm ?q) = jumpBufferTime p \<and>
      lastJumpTime (Player_update dt now t tm ?q) = lastJumpTime ?q \<and>
      vec_y (velocity (physicsBody (Player_update dt now t tm ?q))) =
        vec_y (velocity (physicsBody ?q))"
      using a f h w by simp
  qed
  have c3: "jumpRequested p \<and> waits (jumpBufferTime p) es p \<and> \<not> isDead ?q \<and>
    200 \<le> now - jumpBufferTime p \<longrightarrow>
      True \<notin> set (jumps es p) \<and>
      \<not> fst (Player_update_full dt now t tm ?q) \<and>
      \<not> jumpRequested (Player_update dt now t tm ?q) \<and>
      lastJumpTime (Player_update dt now t tm ?q) = lastJumpTime ?q \<and>
      vec_y (velocity (physicsBody (Player_update dt now t tm ?q))) =
        vec_y (velocity (physicsBody ?q))"
  proof
    assume h: "jumpRequested p \<and> waits (jumpBufferTime p) es p \<and> \<not> isDead ?q \<and>
      200 \<le> now - jumpBufferTime p"
    then have w: "jumpRequested ?q \<and> jumpBufferTime ?q = jumpBufferTime p \<and>
      True \<notin> set (jumps es p)"
      using waits_pending [of p es] by simp
    from h have d: "\<not> isDead ?q" by simp
    note a = Player_update_alive [OF d, of dt now t tm]
    have f: "\<not> fst (Player_update_full dt now t tm ?q)" using j h w by simp
    show "True \<notin> set (jumps es p) \<and>
      \<not> fst (Player_update_full dt now t tm ?q) \<and>
      \<not> jumpRequested (Player_update dt now t tm ?q) \<and>
      lastJumpTime (Player_update dt now t tm ?q) = lastJumpTime ?q \<and>
      vec_y (velocity (physicsBody (Player_update dt now t tm ?q))) =
        vec_y (velocity (physicsBody ?q))"
      using a f h w by simp
  qed
  have c4: "(\<forall>dt' now' t' tm'. e \<noteq> Update dt' now' t' tm') \<and> (\<forall>t'. e \<noteq> KeyDown Space t') \<longrightarrow>
      jumpRequested (apply_event e p) = jumpRequested p \<and>
      jumpBufferTime (apply_event e p) = jumpBufferTime p"
    using other_events_jump_fields(4) [of e p] by blast
  have c5: "\<not> jumpRequested p \<and> (\<forall>e' \<in> set es. \<forall>t'. e' \<noteq> KeyDown Space t') \<longrightarrow>
      True \<notin> set (jumps es p)"
    using no_request_no_jump [of p es] by blast
  show ?thesis using c0 c1 c2 c3 c4 c5 by blast
qed

text \<open>
  On the ground with the key just pressed, the update at 1010 jumps. In the air within the
  coyote time the update at 1120 leaves the request pending; after the updates at 1120 and
  1150 have left it waiting, the update at 1200, past the coyote time, makes the air jump,
  and an update at 1400 instead would find the request expired. A move of the mouse
  does not touch the request, the update of the dead player changes nothing, and a new
  player that is only updated never jumps.
\<close>

theorem buffered_jump_witness:
  "jumpRequested grounded_player \<and> waits (jumpBufferTime grounded_player) [] grounded_player \<and>
   \<not> isDead (run [] grounded_player) \<and>
   1010 - jumpBufferTime grounded_player < 200 \<and>
   jumpConditions 1010 1010 (run [] grounded_player) \<and>
   fst (Player_update_full (1 / 60) 1010 1010 1010 (run [] grounded_player)) \<and>
   \<not> jumpRequested (Player_update (1 / 60) 1010 1010 1010 (run [] grounded_player)) \<and>
   jumpRequested coyote_player \<and> waits (jumpBufferTime coyote_player) [] coyote_player \<and>
   \<not> isDead (run [] coyote_player) \<and>
   1120 - jumpBufferTime coyote_player < 200 \<and>
   \<not> jumpConditions 1120 1120 (run [] coyote_player) \<and>
   \<not> fst (Player_update_full (1 / 60) 1120 1120 1120 (run [] coyote_player)) \<and>
   jumpRequested (Player_update (1 / 60) 1120 1120 1120 (run [] coyote_player)) \<and>
   jumpBufferTime (Player_update (1 / 60) 1120 1120 1120 (run [] coyote_player)) = 1100 \<and>
   waits (jumpBufferTime coyote_player) waiting_trace coyote_player \<and>
   \<not> isDead (run waiting_trace coyote_player) \<and>
   1200 - jumpBufferTime coyote_player < 200 \<and>
   jumpConditions 1200 1200 (run waiting_trace coyote_player) \<and>
   True \<notin> set (jumps waiting_trace coyote_player) \<and>
   fst (Player_update_full (1 / 60) 1200 1200 1200 (run waiting_trace coyote_player)) \<and>
   \<not> jumpRequested (Player_update (1 / 60) 1200 1200 1200 (run waiting_trace coyote_player)) \<and>
   200 \<le> 1400 - jumpBufferTime coyote_player \<and>
   \<not> fst (Player_update_full (1 / 60) 1400 1400 1400 (run waiting_trace coyote_player)) \<and>
   \<not> jumpRequested (Player_update (1 / 60) 1400 1400 1400 (run waiting_trace coyote_player)) \<and>
   jumpRequested (apply_event (MouseMove 3 4) coyote_player) \<and>
   isDead dead_player \<and>
   Player_update (1 / 60) 2110 2110 2110 dead_player = dead_player \<and>
   \<not> jumpRequested fresh_player \<and>
   True \<notin> set (jumps [Update (1 / 60) 10 10 10, Physics resting_body, Update (1 / 60) 30 30 30]
                   fresh_player)"
proof -
  note g = grounded_player_view
  note c = coyote_player_view
  note f = fresh_player_view
  note d = dead_player_view
  note w = waiting_trace_view
  have jg: "jumpConditions 1010 1010 (run [] grounded_player)"
    using g by (simp add: jumpConditions_def)
  have jc1: "\<not> jumpConditions 1120 1120 (run [] coyote_player)"
    using c by (simp add: jumpConditions_def)
  have jc2: "jumpConditions 1200 1200 (run waiting_trace coyote_player)"
    using w by (simp add: jumpConditions_def)
  have mm: "(\<forall>dt' now' t' tm'. MouseMove 3 4 \<noteq> Update dt' now' t' tm') \<and>
            (\<forall>t'. MouseMove 3 4 \<noteq> KeyDown Space t')"
    by simp
  have np: "\<forall>e' \<in> set [Update (1 / 60) 10 10 10, Physics resting_body, Update (1 / 60) 30 30 30].
              \<forall>t'. e' \<noteq> KeyDown Space t'"
    by simp
  have w0: "waits (jumpBufferTime grounded_player) [] grounded_player"
    "waits (jumpBufferTime coyote_player) [] coyote_player"
    by simp_all
  have w1: "waits (jumpBufferTime coyote_player) waiting_trace coyote_player"
    using w c by simp
  have h1: "jumpRequested grounded_player \<and> \<not> isDead (run [] grounded_player) \<and>
            1010 - jumpBufferTime grounded_player < 200"
    using g by simp
  have h2: "jumpRequested coyote_player \<and> \<not> isDead (run [] coyote_player) \<and>
            1120 - jumpBufferTime coyote_player < 200 \<and>
            jumpBufferTime coyote_player = 1100"
    using c by simp
  have h3: "\<not> isDead (run waiting_trace coyote_player) \<and>
            1200 - jumpBufferTime coyote_player < 200 \<and>
            200 \<le> 1400 - jumpBufferTime coyote_player"
    using c w by simp
  have h4: "isDead dead_player \<and> \<not> jumpRequested fresh_player"
    using d f by simp
  have r1: "fst (Player_update_full (1 / 60) 1010 1010 1010 (run [] grounded_player)) \<and>
   \<not> jumpRequested (Player_update (1 / 60) 1010 1010 1010 (run [] grounded_player))"
    using buffered_jump [where p = grounded_player and es = "[]" and now = 1010 and t = 1010
            and dt = "1 / 60" and tm = 1010] h1 w0 jg
    by blast
  have r2: "\<not> fst (Player_update_full (1 / 60) 1120 1120 1120 (run [] coyote_player)) \<and>
   jumpRequested (Player_update (1 / 60) 1120 1120 1120 (run [] coyote_player)) \<and>
   jumpBufferTime (Player_update (1 / 60) 1120 1120 1120 (run [] coyote_player)) =
     jumpBufferTime coyote_player \<and>
   jumpRequested (apply_event (MouseMove 3 4) coyote_player) = jumpRequested coyote_player"
    using buffered_jump [where p = coyote_player and es = "[]" and now = 1120 and t = 1120
            and dt = "1 / 60" and tm = 1120 and e = "MouseMove 3 4"] h2 w0 jc1 mm
    by blast
  have r3: "True \<notin> set (jumps waiting_trace coyote_player) \<and>
   fst (Player_update_full (1 / 60) 1200 1200 1200 (run waiting_trace coyote_player)) \<and>
   \<not> jumpRequested (Player_update (1 / 60) 1200 1200 1200 (run waiting_trace coyote_player))"
    using buffered_jump [where p = coyote_player and es = waiting_trace and now = 1200
            and t = 1200 and dt = "1 / 60" and tm = 1200] h2 h3 w1 jc2
    by blast
  have r4: "\<not> fst (Player_update_full (1 / 60) 1400 1400 1400 (run waiting_trace coyote_player)) \<and>
   \<not> jumpRequested (Player_update (1 / 60) 1400 1400 1400 (run waiting_trace coyote_player))"
    using buffered_jump [where p = coyote_player and es = waiting_trace and now = 1400
            and t = 1400 and dt = "1 / 60" and tm = 1400] h2 h3 w1
    by blast
  have r5: "Player_update (1 / 60) 2110 2110 2110 dead_player = dead_player"
    using buffered_jump [where p = dead_player and now = 2110 and t = 2110
            and dt = "1 / 60" and tm = 2110] h4
    by blast
  have r6: "True \<notin> set (jumps [Update (1 / 60) 10 10 10, Physics resting_body,
              Update (1 / 60) 30 30 30] fresh_player)"
    using buffered_jump [where p = fresh_player and es = "[Update (1 / 60) 10 10 10,
            Physics resting_body, Update (1 / 60) 30 30 30]"] h4 np
    by blast
  show ?thesis
    using r1 r2 r3 r4 r5 r6 h1 h2 h3 h4 w0 w1 jg jc1 jc2 by simp
qed

subsection \<open>The jump count\<close>

text \<open>
  Claim C5. In every state that a run of events reaches from a new player the jump count
  is at most \<open>maxJumps\<close>. An update of a dead player leaves the count alone; an update of a
  living player sets it to the old count, or to 0 when the body is on the ground and the
  player was not at the previous update (and in no other case), plus 1 when the update
  produced a jump, so a first jump takes it from 0 to 1. No other event changes the count.
\<close>

theorem jumpCount_discipline:
  "jumpCount (run es (Player_new cj cm pbody)) \<le> maxJumps (run es (Player_new cj cm pbody)) \<and>
   jumpCount (Player_update dt now t tm p) =
     (if isDead p then jumpCount p
      else (if onGround (physicsBody p) \<and> \<not> player_onGround p then 0 else jumpCount p) +
           (if fst (Player_update_full dt now t tm p) then 1 else 0)) \<and>
   ((\<forall>dt' now' t' tm'. e \<noteq> Update dt' now' t' tm') \<longrightarrow>
      jumpCount (apply_event e p) = jumpCount p)"
proof (intro conjI impI)
  show "jumpCount (run es (Player_new cj cm pbody)) \<le> maxJumps (run es (Player_new cj cm pbody))"
    using jump_invariant_run [of "Player_new cj cm pbody" es] Player_new_invariant [of cj cm pbody]
    by simp
  show "jumpCount (Player_update dt now t tm p) =
     (if isDead p then jumpCount p
      else (if onGround (physicsBody p) \<and> \<not> player_onGround p then 0 else jumpCount p) +
           (if fst (Player_update_full dt now t tm p) then 1 else 0))"
  proof (cases "isDead p")
    case True
    then show ?thesis by (simp add: Player_update_def Player_update_full_dead)
  next
    case False
    then show ?thesis using Player_update_alive [OF False, of dt now t tm] by simp
  qed
next
  assume "\<forall>dt' now' t' tm'. e \<noteq> Update dt' now' t' tm'"
  then show "jumpCount (apply_event e p) = jumpCount p"
    by (rule other_events_jump_fields(1))
qed

text \<open>
  The air jump at 1200 takes the count from 1 to 2, the maximum; landing after it, with
  the request expired, takes the count back to 0; a key press changes nothing.
\<close>

theorem jumpCount_discipline_witness:
  "jumpCount (run [Physics resting_body, Update (1 / 60) 1000 1000 1000, KeyDown Space 1000,
                   Update (1 / 60) 1010 1010 1010] (Player_new None None airborne_body))
     \<le> maxJumps (run [Physics resting_body, Update (1 / 60) 1000 1000 1000, KeyDown Space 1000,
                   Update (1 / 60) 1010 1010 1010] (Player_new None None airborne_body)) \<and>
   jumpCount coyote_player = 1 \<and> maxJumps coyote_player = 2 \<and>
   jumpCount (Player_update (1 / 60) 1200 1200 1200 coyote_player) = 2 \<and>
   jumpCount (Player_update (1 / 60) 1500 1500 1500
                (apply_event (Physics resting_body) coyote_player)) = 0 \<and>
   jumpCount (Player_update (1 / 60) 2110 2110 2110 dead_player) = jumpCount dead_player \<and>
   (\<forall>dt' now' t' tm'. KeyDown Space 5 \<noteq> Update dt' now' t' tm') \<and>
   jumpCount (apply_event (KeyDown Space 5) coyote_player) = 1"
proof -
  note c = coyote_player_view
  note d = dead_player_view
  let ?l = "apply_event (Physics resting_body) coyote_player"
  have l: "\<not> isDead ?l \<and> onGround (physicsBody ?l) \<and> \<not> player_onGround ?l \<and>
           jumpRequested ?l \<and> jumpBufferTime ?l = 1100"
    using c by (simp add: resting_body_def)
  have j1: "fst (Player_update_full (1 / 60) 1200 1200 1200 coyote_player)"
    using c by (simp add: Player_update_jumped jumpConditions_def)
  have j2: "\<not> fst (Player_update_full (1 / 60) 1500 1500 1500 ?l)"
    using l by (simp add: Player_update_jumped)
  have k: "\<forall>dt' now' t' tm'. KeyDown Space 5 \<noteq> Update dt' now' t' tm'"
    by simp
  show ?thesis
    using jumpCount_discipline [where es = "[Physics resting_body, Update (1 / 60) 1000 1000 1000,
              KeyDown Space 1000, Update (1 / 60) 1010 1010 1010]" and cj = None and cm = None
              and pbody = airborne_body and p = coyote_player and dt = "1 / 60" and now = 1200
              and t = 1200 and tm = 1200 and e = "KeyDown Space 5"]
          jumpCount_discipline [where p = ?l and dt = "1 / 60" and now = 1500
              and t = 1500 and tm = 1500]
          jumpCount_discipline [where p = dead_player and dt = "1 / 60" and now = 2110
              and t = 2110 and tm = 2110]
          c d l j1 j2 k
    by simp
qed

section \<open>Movement\<close>

lemma length3_horizontal: "length3 (Vector3 a 0 c) = sqrt (a\<^sup>2 + c\<^sup>2)"
  by (simp add: length3_def lengthSq_def power2_eq_square)

lemma prepareMove_target:
  "targetVelocity (movement (prepareMove nowM p)) =
     multiplyScalar (moveDirection (movement (prepareMove nowM p)))
       (if isSprinting p then runSpeed else walkSpeed)"
  by (simp add: prepareMove_def calculateMoveDirection_def detectDirectionChange_def Let_def)

lemma blend_momentum:
  assumes "hasChangedDirection (movement q)"
      and "2 < sqrt ((vec_x (velocity (physicsBody q)))\<^sup>2 + (vec_z (velocity (physicsBody q)))\<^sup>2)"
  shows "blendVelocity dt q =
     add (multiplyScalar
            (Vector3 (vec_x (velocity (physicsBody q))) 0 (vec_z (velocity (physicsBody q)))) 0.5)
         (multiplyScalar (targetVelocity (movement q)) 0.5)"
  using assms
  by (simp add: blendVelocity_def Let_def length3_horizontal momentumRetention_def
        addScaledVector_def add_def multiplyScalar_def)

text \<open>
  With move input, what \<open>Movement.update\<close> writes to the body is the blended velocity,
  limited in length, plus the forward boost when the player has just made a first jump.
\<close>

lemma Movement_update_velocity:
  assumes "0 < lengthSq (moveInput p)"
  shows "vec_x (velocity (physicsBody (Movement_update dt nowM p))) =
           vec_x (limitSpeed (blendVelocity dt (prepareMove nowM p))) +
           (if isJumping p \<and> jumpCount p = 1
            then vec_x (moveDirection (movement (prepareMove nowM p))) * (jumpBoostForward * walkSpeed)
            else 0)"
    and "vec_z (velocity (physicsBody (Movement_update dt nowM p))) =
           vec_z (limitSpeed (blendVelocity dt (prepareMove nowM p))) +
           (if isJumping p \<and> jumpCount p = 1
            then vec_z (moveDirection (movement (prepareMove nowM p))) * (jumpBoostForward * walkSpeed)
            else 0)"
  using assms
  by (simp_all add: Movement_update_def applyAccelerationWithMomentum_def Let_def multiplyScalar_def)

lemma lengthSq_scale: "lengthSq (multiplyScalar v s) = s\<^sup>2 * lengthSq v"
  by (simp add: lengthSq_def multiplyScalar_def power2_eq_square algebra_simps)

lemma limitSpeed_bound: "length3 (limitSpeed v) \<le> maxSpeed"
proof (cases "length3 v > maxSpeed")
  case True
  then have pos: "0 < length3 v" by (simp add: maxSpeed_def)
  have "length3 (multiplyScalar v (maxSpeed / length3 v)) = \<bar>maxSpeed / length3 v\<bar> * length3 v"
    by (simp add: length3_def lengthSq_scale real_sqrt_mult)
  also have "\<dots> = maxSpeed" using pos by (simp add: maxSpeed_def)
  finally show ?thesis using True by (simp add: limitSpeed_def Let_def)
next
  case False
  then show ?thesis by (simp add: limitSpeed_def Let_def)
qed

lemma horizontal_le_length3: "sqrt ((vec_x v)\<^sup>2 + (vec_z v)\<^sup>2) \<le> length3 v"
  by (simp add: length3_def lengthSq_def power2_eq_square)

text \<open>Without the jump boost the horizontal speed after the update is at most \<open>maxSpeed\<close>.\<close>

lemma Movement_update_speed_bound:
  assumes "0 < lengthSq (moveInput p)" and "\<not> (isJumping p \<and> jumpCount p = 1)"
  shows "sqrt ((vec_x (velocity (physicsBody (Movement_update dt nowM p))))\<^sup>2 +
               (vec_z (velocity (physicsBody (Movement_update dt nowM p))))\<^sup>2) \<le> maxSpeed"
proof -
  let ?v = "limitSpeed (blendVelocity dt (prepareMove nowM p))"
  have "vec_x (velocity (physicsBody (Movement_update dt nowM p))) = vec_x ?v"
    "vec_z (velocity (physicsBody (Movement_update dt nowM p))) = vec_z ?v"
    using Movement_update_velocity [OF assms(1), of dt nowM] assms(2) by auto
  then show ?thesis
    using horizontal_le_length3 [of ?v] limitSpeed_bound [of "blendVelocity dt (prepareMove nowM p)"]
    by simp
qed

subsection \<open>The example players, prepared for a move\<close>

lemma detectDirectionChange_fields [simp]:
  "moveDirection (detectDirectionChange t m) = moveDirection m"
  "lastDirection (detectDirectionChange t m) = lastDirection m"
  by (simp_all add: detectDirectionChange_def Let_def)

lemma calculateMoveDirection_forward:
  assumes "viewRotation_y p = 0"
  shows "moveDirection (movement (calculateMoveDirection (Vector3 0 0 (- 1)) p)) =
           Vector3 0 0 (- 1)"
proof -
  have u: "normalize (Vector3 a 0 c) = Vector3 a 0 c" if "a * a + c * c = 1" for a c
    using that by (simp add: normalize_def length3_def lengthSq_def js_or_def divideScalar_def
        multiplyScalar_def Vector3_def)
  have f: "(rotateY 0 (Vector3 0 0 (- 1)))\<lparr>vec_y := 0\<rparr> = Vector3 0 0 (- 1)"
    and r: "(rotateY 0 (Vector3 1 0 0))\<lparr>vec_y := 0\<rparr> = Vector3 1 0 0"
    by (simp_all add: rotateY_def Vector3_def)
  have l: "lengthSq (Vector3 0 0 (- 1)) = 1" "lengthSq (Vector3 1 0 0) = 1"
    by (simp_all add: lengthSq_def)
  show ?thesis
    using assms
    by (simp add: calculateMoveDirection_def Let_def f r l u addScaledVector_def)
qed

lemma prepareMove_forward:
  assumes "viewRotation_y p = 0" and "moveInput p = Vector3 0 0 (- 1)"
  shows "moveDirection (movement (prepareMove nowM p)) = Vector3 0 0 (- 1)"
    and "hasChangedDirection (movement (prepareMove nowM p)) =
           hasChangedDirection
             (detectDirectionChange nowM
               ((movement p)\<lparr>moveDirection := Vector3 0 0 (- 1)\<rparr>))"
proof -
  have n: "normalizedInput p = Vector3 0 0 (- 1)"
    using assms by (simp add: normalizedInput_def lengthSq_def)
  have m: "movement (calculateMoveDirection (Vector3 0 0 (- 1)) p) =
      (movement p)\<lparr>moveDirection := Vector3 0 0 (- 1)\<rparr>"
    using calculateMoveDirection_forward [OF assms(1)]
    by (simp add: calculateMoveDirection_def Let_def)
  show "moveDirection (movement (prepareMove nowM p)) = Vector3 0 0 (- 1)"
    by (simp add: prepareMove_def Let_def n m)
  show "hasChangedDirection (movement (prepareMove nowM p)) =
           hasChangedDirection
             (detectDirectionChange nowM
               ((movement p)\<lparr>moveDirection := Vector3 0 0 (- 1)\<rparr>))"
    by (simp add: prepareMove_def Let_def n m)
qed

lemma turning_player_prepared:
  "0 < lengthSq (moveInput turning_player) \<and>
   hasChangedDirection (movement (prepareMove 5000 turning_player)) \<and>
   moveDirection (movement (prepareMove 5000 turning_player)) = Vector3 0 0 (- 1) \<and>
   velocity (physicsBody turning_player) = Vector3 4 0 0 \<and>
   \<not> isSprinting turning_player"
proof -
  have y: "viewRotation_y turning_player = 0"
    and m: "moveInput turning_player = Vector3 0 0 (- 1)"
    by (simp_all add: turning_player_def Player_new_def)
  have "hasChangedDirection (movement (prepareMove 5000 turning_player))"
    unfolding prepareMove_forward(2) [OF y m]
    by (simp add: detectDirectionChange_def Let_def turning_player_def Movement_new_def
          lengthSq_def dot_def directionChangeThreshold_def)
  then show ?thesis using prepareMove_forward(1) [OF y m] m
    by (simp add: lengthSq_def) (simp add: turning_player_def Player_new_def)
qed

lemma boosted_player_prepared:
  "0 < lengthSq (moveInput boosted_player) \<and>
   hasChangedDirection (movement (prepareMove 5000 boosted_player)) \<and>
   moveDirection (movement (prepareMove 5000 boosted_player)) = Vector3 0 0 (- 1) \<and>
   velocity (physicsBody boosted_player) = Vector3 0 7.5 (- 12) \<and>
   isSprinting boosted_player \<and> isJumping boosted_player \<and> jumpCount boosted_player = 1 \<and>
   player_onGround boosted_player"
proof -
  have y: "viewRotation_y boosted_player = 0"
    and m: "moveInput boosted_player = Vector3 0 0 (- 1)"
    by (simp_all add: boosted_player_def Player_new_def)
  have "hasChangedDirection (movement (prepareMove 5000 boosted_player))"
    unfolding prepareMove_forward(2) [OF y m]
    by (simp add: detectDirectionChange_def Let_def boosted_player_def Movement_new_def
          lengthSq_def dot_def directionChangeThreshold_def)
  then show ?thesis using prepareMove_forward(1) [OF y m] m
    by (simp add: lengthSq_def) (simp add: boosted_player_def Player_new_def)
qed

subsection \<open>Momentum on a change of direction\<close>

text \<open>
  Claim C6. Let \<open>Movement.update\<close> run with move input that is not zero, let the direction
  change be flagged once \<open>detectDirectionChange\<close> has run, and let the horizontal speed of
  the body exceed 2. Then the new horizontal velocity, before its length is limited, is
  \<open>currentV * 0.5 + targetVelocity * 0.5\<close>, where \<open>currentV\<close> is the body's velocity with
  its vertical component set to 0 and \<open>targetVelocity\<close> is the move direction times
  \<open>runSpeed\<close> when sprinting and \<open>walkSpeed\<close> otherwise; and what the update writes to the
  body is that velocity after the limit (and the jump boost, when it applies).
\<close>

theorem momentum_blend:
  assumes "0 < lengthSq (moveInput p)"
      and "hasChangedDirection (movement (prepareMove nowM p))"
      and "2 < sqrt ((vec_x (velocity (physicsBody p)))\<^sup>2 + (vec_z (velocity (physicsBody p)))\<^sup>2)"
  shows "blendVelocity dt (prepareMove nowM p) =
           add (multiplyScalar
                  (Vector3 (vec_x (velocity (physicsBody p))) 0 (vec_z (velocity (physicsBody p)))) 0.5)
               (multiplyScalar (targetVelocity (movement (prepareMove nowM p))) 0.5) \<and>
         targetVelocity (movement (prepareMove nowM p)) =
           multiplyScalar (moveDirection (movement (prepareMove nowM p)))
             (if isSprinting p then runSpeed else walkSpeed) \<and>
         vec_x (velocity (physicsBody (Movement_update dt nowM p))) =
           vec_x (limitSpeed (blendVelocity dt (prepareMove nowM p))) +
           (if isJumping p \<and> jumpCount p = 1
            then vec_x (moveDirection (movement (prepareMove nowM p))) * (jumpBoostForward * walkSpeed)
            else 0) \<and>
         vec_z (velocity (physicsBody (Movement_update dt nowM p))) =
           vec_z (limitSpeed (blendVelocity dt (prepareMove nowM p))) +
           (if isJumping p \<and> jumpCount p = 1
            then vec_z (moveDirection (movement (prepareMove nowM p))) * (jumpBoostForward * walkSpeed)
            else 0)"
proof -
  have "blendVelocity dt (prepareMove nowM p) =
           add (multiplyScalar
                  (Vector3 (vec_x (velocity (physicsBody p))) 0 (vec_z (velocity (physicsBody p)))) 0.5)
               (multiplyScalar (targetVelocity (movement (prepareMove nowM p))) 0.5)"
    using blend_momentum [of "prepareMove nowM p" dt] assms(2,3) by simp
  then show ?thesis
    using prepareMove_target [of nowM p] Movement_update_velocity [OF assms(1), of dt nowM]
    by simp
qed

text \<open>Moving right at speed 4 and pressing forward: half of each, \<open>(2, 0, -3)\<close>.\<close>

theorem momentum_blend_witness:
  "0 < lengthSq (moveInput turning_player) \<and>
   hasChangedDirection (movement (prepareMove 5000 turning_player)) \<and>
   2 < sqrt ((vec_x (velocity (physicsBody turning_player)))\<^sup>2 +
             (vec_z (velocity (physicsBody turning_player)))\<^sup>2) \<and>
   targetVelocity (movement (prepareMove 5000 turning_player)) = Vector3 0 0 (- 6) \<and>
   blendVelocity (1 / 60) (prepareMove 5000 turning_player) = Vector3 2 0 (- 3)"
proof -
  note t = turning_player_prepared
  have h1: "0 < lengthSq (moveInput turning_player)"
    and h2: "hasChangedDirection (movement (prepareMove 5000 turning_player))"
    using t by simp_all
  have "(2::real)\<^sup>2 < 16" by simp
  then have "2 < sqrt (16::real)" by (rule real_less_rsqrt)
  then have h3: "2 < sqrt ((vec_x (velocity (physicsBody turning_player)))\<^sup>2 +
             (vec_z (velocity (physicsBody turning_player)))\<^sup>2)"
    using t by simp
  from momentum_blend [OF h1 h2 h3, of "1 / 60"] t
  have "targetVelocity (movement (prepareMove 5000 turning_player)) = Vector3 0 0 (- 6) \<and>
        blendVelocity (1 / 60) (prepareMove 5000 turning_player) = Vector3 2 0 (- 3)"
    by (simp add: walkSpeed_def multiplyScalar_def add_def)
  then show ?thesis using h1 h2 h3 by simp
qed

subsection \<open>The speed limit and the jump boost\<close>

text \<open>
  Claim C7 says that \<open>Movement.update\<close> writes only the x and z components of the body's
  velocity, and that with move input the horizontal speed after the update is at most
  \<open>maxSpeed\<close>, which is 12. The first half holds (\<open>Movement_update_fields\<close>), and so does the
  second as long as no jump boost is applied (\<open>Movement_update_speed_bound\<close>). The boost,
  however, is added after the speed has been limited: at \<open>boosted_player\<close> (sprinting
  forward at speed 12, a direction change flagged 50 ms ago, first jump just made) an
  update of 1/60 s blends the velocity to \<open>(0, -11)\<close>, which is within the limit, and then
  adds the boost of 1.2, leaving a horizontal speed of 12.2.
\<close>

theorem jump_boost_exceeds_maxSpeed:
  "0 < lengthSq (moveInput boosted_player) \<and>
   sqrt ((vec_x (velocity (physicsBody boosted_player)))\<^sup>2 +
         (vec_z (velocity (physicsBody boosted_player)))\<^sup>2) = maxSpeed \<and>
   vec_x (velocity (physicsBody (Movement_update (1 / 60) 5000 boosted_player))) = 0 \<and>
   vec_z (velocity (physicsBody (Movement_update (1 / 60) 5000 boosted_player))) = - 12.2 \<and>
   maxSpeed <
     sqrt ((vec_x (velocity (physicsBody (Movement_update (1 / 60) 5000 boosted_player))))\<^sup>2 +
           (vec_z (velocity (physicsBody (Movement_update (1 / 60) 5000 boosted_player))))\<^sup>2)"
proof -
  note b = boosted_player_prepared
  let ?q = "prepareMove 5000 boosted_player"
  have h1: "0 < lengthSq (moveInput boosted_player)" using b by simp
  have s144: "sqrt (144::real) = 12" and s121: "sqrt (121::real) = 11"
    by (rule real_sqrt_unique; simp)+
  have sp: "sqrt ((vec_x (velocity (physicsBody boosted_player)))\<^sup>2 +
         (vec_z (velocity (physicsBody boosted_player)))\<^sup>2) = 12"
    using b by (simp add: s144)
  have tv: "targetVelocity (movement ?q) = Vector3 0 0 (- 10)"
    using prepareMove_target [of 5000 boosted_player] b
    by (simp add: runSpeed_def multiplyScalar_def)
  have "blendVelocity (1 / 60) ?q =
          add (multiplyScalar (Vector3 0 0 (- 12)) 0.5) (multiplyScalar (Vector3 0 0 (- 10)) 0.5)"
    using blend_momentum [of ?q "1 / 60"] b sp tv by simp
  then have bl: "blendVelocity (1 / 60) ?q = Vector3 0 0 (- 11)"
    by (simp add: add_def multiplyScalar_def)
  have ls: "limitSpeed (Vector3 0 0 (- 11)) = Vector3 0 0 (- 11)"
    by (simp add: limitSpeed_def Let_def length3_def lengthSq_def s121 maxSpeed_def)
  have vx: "vec_x (velocity (physicsBody (Movement_update (1 / 60) 5000 boosted_player))) = 0"
    and vz: "vec_z (velocity (physicsBody (Movement_update (1 / 60) 5000 boosted_player))) = - 12.2"
    using Movement_update_velocity [OF h1, of "1 / 60" 5000] b
    by (simp_all add: bl ls jumpBoostForward_def walkSpeed_def)
  have "(12::real)\<^sup>2 < (- 12.2)\<^sup>2" by (simp add: power2_eq_square)
  then have "(12::real) < sqrt ((- 12.2)\<^sup>2)" by (rule real_less_rsqrt)
  then have gt: "maxSpeed <
     sqrt ((vec_x (velocity (physicsBody (Movement_update (1 / 60) 5000 boosted_player))))\<^sup>2 +
           (vec_z (velocity (physicsBody (Movement_update (1 / 60) 5000 boosted_player))))\<^sup>2)"
    by (simp add: vx vz maxSpeed_def)
  show ?thesis using h1 sp vx vz gt by (simp add: maxSpeed_def)
qed

end
